theory Spec2Isabelle
  imports Complex_Main "HOL-Library.Product_Lexorder"
begin

section \<open>Python strings\<close>

text \<open>
  Strings are lists of characters. The functions below are the \<^verbatim>\<open>str\<close> methods the
  sources call, on ASCII text: \<^verbatim>\<open>lower\<close> and \<^verbatim>\<open>upper\<close> change the 26 letters and
  leave every other character as it is, and \<^verbatim>\<open>strip\<close> removes the ASCII whitespace
  characters that \<^verbatim>\<open>str.isspace\<close> accepts.
\<close>

definition lower_char :: "char \<Rightarrow> char" where
  "lower_char c =
     (let n = (of_char c :: nat) in if 65 \<le> n \<and> n \<le> 90 then char_of (n + 32) else c)"

definition upper_char :: "char \<Rightarrow> char" where
  "upper_char c =
     (let n = (of_char c :: nat) in if 97 \<le> n \<and> n \<le> 122 then char_of (n - 32) else c)"

definition lower :: "string \<Rightarrow> string" where
  "lower s = map lower_char s"

definition upper :: "string \<Rightarrow> string" where
  "upper s = map upper_char s"

definition is_space :: "char \<Rightarrow> bool" where
  "is_space c =
     (let n = (of_char c :: nat) in (9 \<le> n \<and> n \<le> 13) \<or> (28 \<le> n \<and> n \<le> 32))"

definition strip :: "string \<Rightarrow> string" where
  "strip s = rev (dropWhile is_space (rev (dropWhile is_space s)))"

text \<open>\<^verbatim>\<open>s.startswith(p)\<close>\<close>

definition startswith :: "string \<Rightarrow> string \<Rightarrow> bool" where
  "startswith s p = (take (length p) s = p)"

text \<open>\<^verbatim>\<open>k in s\<close> for strings: \<open>k\<close> occurs in \<open>s\<close> as a contiguous substring.\<close>

fun str_in :: "string \<Rightarrow> string \<Rightarrow> bool" where
  "str_in k [] = (k = [])"
| "str_in k (c # cs) = (startswith (c # cs) k \<or> str_in k cs)"

text \<open>
  \<^verbatim>\<open>s.split()\<close>: the maximal runs of characters that are not whitespace. The
  first argument is the word being read.
\<close>

fun split_ws :: "string \<Rightarrow> string \<Rightarrow> string list" where
  "split_ws cur [] = (if cur = [] then [] else [cur])"
| "split_ws cur (c # cs) =
     (if is_space c then (if cur = [] then split_ws [] cs else cur # split_ws [] cs)
      else split_ws (cur @ [c]) cs)"

definition py_split :: "string \<Rightarrow> string list" where
  "py_split s = split_ws [] s"

text \<open>\<^verbatim>\<open>s.split(sep)\<close> for a one-character separator, and \<^verbatim>\<open>sep.join(xs)\<close>.\<close>

fun split_on :: "char \<Rightarrow> string \<Rightarrow> string \<Rightarrow> string list" where
  "split_on sep cur [] = [cur]"
| "split_on sep cur (c # cs) =
     (if c = sep then cur # split_on sep [] cs else split_on sep (cur @ [c]) cs)"

fun join :: "string \<Rightarrow> string list \<Rightarrow> string" where
  "join sep [] = []"
| "join sep [x] = x"
| "join sep (x # y # ys) = x @ sep @ join sep (y # ys)"

section \<open>Memory classifier (app/memory/memory\_manager.py)\<close>

datatype MemoryPriority = LOW | MEDIUM | HIGH | CRITICAL

record category_config =
  cfg_keywords :: "string list"
  lifespan_days :: int
  priority :: MemoryPriority

text \<open>
  \<^verbatim>\<open>_init_memory_categories\<close>: the dictionary, in its insertion order, which is the
  order every loop over \<^verbatim>\<open>self.memory_categories.items()\<close> follows.
\<close>

definition memory_categories :: "(string \<times> category_config) list" where
  "memory_categories =
    [(''preference'',
      \<lparr>cfg_keywords = [''like'', ''love'', ''enjoy'', ''favorite'', ''prefer'', ''hate'',
                    ''dislike'', ''fond of''],
       lifespan_days = 365, priority = HIGH\<rparr>),
     (''fact'',
      \<lparr>cfg_keywords = [''am'', [CHR 0x27, CHR ''m''], ''have'', ''work'', ''study'', ''live'',
                    ''born'', ''age'', ''from''],
       lifespan_days = 730, priority = MEDIUM\<rparr>),
     (''experience'',
      \<lparr>cfg_keywords = [''went to'', ''visited'', ''experienced'', ''happened'', ''once''],
       lifespan_days = 180, priority = MEDIUM\<rparr>),
     (''goal'',
      \<lparr>cfg_keywords = [''want to'', ''plan to'', ''goal'', ''aspire'', ''dream'', ''hope to''],
       lifespan_days = 90, priority = HIGH\<rparr>),
     (''emotion'',
      \<lparr>cfg_keywords = [''feel'', ''felt'', ''emotion'', ''happy'', ''sad'', ''angry'', ''excited''],
       lifespan_days = 30, priority = LOW\<rparr>)]"

text \<open>
  \<^verbatim>\<open>_split_into_sentences\<close>: \<^verbatim>\<open>re.split(r'[.!?]+', text)\<close> cuts the text at every
  maximal run of sentence-terminal characters; the pieces are stripped and the empty
  ones dropped.
\<close>

definition is_terminal :: "char \<Rightarrow> bool" where
  "is_terminal c = (c = CHR ''.'' \<or> c = CHR ''!'' \<or> c = CHR ''?'')"

function re_split_terminal :: "string \<Rightarrow> string \<Rightarrow> string list" where
  "re_split_terminal cur [] = [cur]"
| "re_split_terminal cur (c # cs) =
     (if is_terminal c then cur # re_split_terminal [] (dropWhile is_terminal cs)
      else re_split_terminal (cur @ [c]) cs)"
  by pat_completeness auto
termination
  by (relation "measure (\<lambda>(cur, s). length s)")
     (auto simp: le_imp_less_Suc length_dropWhile_le)

definition split_into_sentences :: "string \<Rightarrow> string list" where
  "split_into_sentences text =
     map strip (filter (\<lambda>s. strip s \<noteq> []) (re_split_terminal [] text))"

text \<open>
  The confidence computed inside the keyword test of \<^verbatim>\<open>_analyze_text_for_memories\<close>;
  it depends on the source and on the lowercased sentence only.
\<close>

definition sentence_confidence :: "string \<Rightarrow> string \<Rightarrow> rat" where
  "sentence_confidence source sentence_lower =
     (if source = ''user'' then
        (if startswith sentence_lower ''i '' \<or> str_in ''my '' sentence_lower
         then 9 / 10 else 6 / 10)
      else 5 / 10)"

text \<open>
  The inner loop over one category's keywords: the first keyword found in the
  lowercased sentence appends one tuple and \<^verbatim>\<open>break\<close> leaves this loop.
\<close>

fun scan_keywords :: "string \<Rightarrow> string \<Rightarrow> string \<Rightarrow> string list \<Rightarrow> (string \<times> string \<times> rat) list"
where
  "scan_keywords source sentence category [] = []"
| "scan_keywords source sentence category (keyword # rest) =
     (if str_in keyword (lower sentence)
      then [(category, strip sentence, sentence_confidence source (lower sentence))]
      else scan_keywords source sentence category rest)"

text \<open>The loop over the categories: it runs to the end of the table for every sentence.\<close>

fun scan_categories ::
  "string \<Rightarrow> string \<Rightarrow> (string \<times> category_config) list \<Rightarrow> (string \<times> string \<times> rat) list"
where
  "scan_categories source sentence [] = []"
| "scan_categories source sentence ((category, config) # rest) =
     scan_keywords source sentence category (cfg_keywords config)
     @ scan_categories source sentence rest"

definition analyze_text_for_memories :: "string \<Rightarrow> string \<Rightarrow> (string \<times> string \<times> rat) list" where
  "analyze_text_for_memories text source =
     concat (map (\<lambda>sentence. scan_categories source sentence memory_categories)
                 (split_into_sentences text))"

text \<open>
  The categories, in table order, one of whose keywords occurs in the lowercased
  sentence: what the two loops are compared with below.
\<close>

definition matching_categories :: "string \<Rightarrow> string list" where
  "matching_categories sentence =
     map fst (filter (\<lambda>(cat, config). list_ex (\<lambda>keyword. str_in keyword (lower sentence))
                                             (cfg_keywords config))
                     memory_categories)"

section \<open>Memory store (app/memory/models.py, app/memory/memory\_manager.py)\<close>

text \<open>
  A row of the table \<^verbatim>\<open>long_term_memories\<close>, with the columns the manager reads or
  writes (the embedding and the free-form metadata are left out). Confidence and
  importance are rationals: the only arithmetic the manager does on them is
  \<^verbatim>\<open>max\<close>, comparison with a literal, and the product \<^verbatim>\<open>0.5 * 0.8\<close>, which is
  exact in binary floating point (a halving) and equal to the literal \<^verbatim>\<open>0.4\<close>.
  Timestamps are seconds; the primary key (a fresh \<^verbatim>\<open>uuid4\<close>) is a number taken
  from a counter. \<^verbatim>\<open>access_count\<close> has the column default 0 and no path stores
  \<^verbatim>\<open>NULL\<close> in it, so it is an integer.
\<close>

record LongTermMemory =
  mem_id :: nat
  user_id :: string
  memory_type :: string
  category :: string
  content :: string
  memory_hash :: string
  confidence :: rat
  importance :: rat
  source_conversation :: "string option"
  access_count :: int
  last_accessed :: "int option"
  is_active :: bool
  created_at :: int
  updated_at :: int
  expires_at :: "int option"

text \<open>The dictionaries \<^verbatim>\<open>get_relevant_memories\<close> returns; a key that a path does not set is \<open>None\<close>.\<close>

record memory_dict =
  d_id :: nat
  d_content :: string
  d_type :: string
  d_category :: string
  d_confidence :: rat
  d_importance :: "rat option"
  d_created_at :: "int option"
  d_access_count :: "int option"
  d_source :: "string option"
  d_relevance_score :: "rat option"

text \<open>
  \<^verbatim>\<open>self.memory_cache\<close>, a dictionary in insertion order. Its keys are
  \<^verbatim>\<open>f"{user_id}:{memory.id}"\<close> (written by \<^verbatim>\<open>store_memory\<close>) and
  \<^verbatim>\<open>f"{user_id}:recent"\<close> (written by \<^verbatim>\<open>get_relevant_memories\<close>); the text of a
  UUID never ends in \<^verbatim>\<open>recent\<close>, so the two kinds of key never coincide and each
  entry carries its kind.
\<close>

datatype cache_item =
    Stored string nat string string string rat int
  | Recent string "memory_dict list"

fun same_key :: "cache_item \<Rightarrow> cache_item \<Rightarrow> bool" where
  "same_key (Stored u i _ _ _ _ _) (Stored u' i' _ _ _ _ _) = (u = u' \<and> i = i')"
| "same_key (Recent u _) (Recent u' _) = (u = u')"
| "same_key _ _ = False"

text \<open>\<^verbatim>\<open>cache[key] = value\<close>: an existing key keeps its place, a new key goes last.\<close>

definition cache_put :: "cache_item \<Rightarrow> cache_item list \<Rightarrow> cache_item list" where
  "cache_put item cache =
     (if list_ex (same_key item) cache
      then map (\<lambda>e. if same_key item e then item else e) cache
      else cache @ [item])"

text \<open>\<^verbatim>\<open>cache_key in self.memory_cache\<close> and \<^verbatim>\<open>self.memory_cache[cache_key]\<close> for a \<^verbatim>\<open>recent\<close> key.\<close>

fun cache_recent :: "string \<Rightarrow> cache_item list \<Rightarrow> memory_dict list option" where
  "cache_recent u [] = None"
| "cache_recent u (Recent u' ms # rest) = (if u' = u then Some ms else cache_recent u rest)"
| "cache_recent u (Stored _ _ _ _ _ _ _ # rest) = cache_recent u rest"

text \<open>
  The session and the manager's cache. \<open>autoflush\<close> is the session's flush mode:
  app/database/postgres.py and app/database/sqlite.py both build their sessions with
  \<^verbatim>\<open>sessionmaker(autocommit=False, autoflush=False, bind=engine)\<close>.
\<close>

record state =
  memories :: "LongTermMemory list"
  next_id :: nat
  autoflush :: bool
  memory_cache :: "cache_item list"

definition SessionLocal :: "LongTermMemory list \<Rightarrow> nat \<Rightarrow> cache_item list \<Rightarrow> state" where
  "SessionLocal rows n cache =
     \<lparr>memories = rows, next_id = n, autoflush = False, memory_cache = cache\<rparr>"

text \<open>
  The table's constraints: \<^verbatim>\<open>id\<close> is the primary key and \<^verbatim>\<open>memory_hash\<close> is declared
  \<^verbatim>\<open>unique=True\<close>; the counter is beyond every key in use.
\<close>

definition table_ok :: "state \<Rightarrow> bool" where
  "table_ok st =
     (distinct (map mem_id (memories st)) \<and> distinct (map memory_hash (memories st))
      \<and> list_all (\<lambda>m. mem_id m < next_id st) (memories st))"

datatype error = IntegrityError | AttributeError | TypeError

text \<open>\<^verbatim>\<open>timedelta(days=n)\<close>, in seconds.\<close>

definition days :: "int \<Rightarrow> int" where
  "days n = n * 86400"

text \<open>
  \<^verbatim>\<open>calculate_memory_hash\<close>. The digest function is a parameter: nothing below
  depends on which function \<^verbatim>\<open>hashlib.md5(...).hexdigest()\<close> computes.
\<close>

definition calculate_memory_hash :: "(string \<Rightarrow> string) \<Rightarrow> string \<Rightarrow> string \<Rightarrow> string" where
  "calculate_memory_hash md5 user content' = md5 (user @ '':'' @ strip (lower content'))"

text \<open>\<^verbatim>\<open>_categorize_memory\<close>: the first category, in table order, one of whose keywords occurs.\<close>

fun categorize_scan :: "string \<Rightarrow> (string \<times> category_config) list \<Rightarrow> string option" where
  "categorize_scan content_lower [] = None"
| "categorize_scan content_lower ((cat, config) # rest) =
     (if list_ex (\<lambda>keyword. str_in keyword content_lower) (cfg_keywords config)
      then Some cat else categorize_scan content_lower rest)"

definition type_to_category :: "string \<Rightarrow> string" where
  "type_to_category mtype =
     (if mtype \<in> set [''preference'', ''fact'', ''experience'', ''goal'', ''emotion'']
      then mtype else ''general'')"

definition categorize_memory :: "string \<Rightarrow> string \<Rightarrow> string" where
  "categorize_memory content' mtype =
     (case categorize_scan (lower content') memory_categories of
        Some cat \<Rightarrow> cat
      | None \<Rightarrow> type_to_category mtype)"

text \<open>\<^verbatim>\<open>self.memory_categories.get(category, {}).get("lifespan_days", 30)\<close>\<close>

definition lifespan_of :: "string \<Rightarrow> int" where
  "lifespan_of cat =
     (case map_of memory_categories cat of Some config \<Rightarrow> lifespan_days config | None \<Rightarrow> 30)"

text \<open>The cache's size bound: beyond 1000 entries the first key in insertion order goes.\<close>

definition limit_cache :: "cache_item list \<Rightarrow> cache_item list" where
  "limit_cache cache = (if length cache > 1000 then tl cache else cache)"

text \<open>
  \<^verbatim>\<open>store_memory\<close>. The lookup filters on the user and the hash only. A hit is
  merged in place. A miss inserts a row, which the unique constraint on
  \<^verbatim>\<open>memory_hash\<close> rejects at the commit when another user's row carries the same
  hash. There are two clocks. \<open>now\<close> is the reading of \<^verbatim>\<open>datetime.utcnow()\<close> in the
  call: the expiry of a new row is computed from it, and a merge writes it to
  \<^verbatim>\<open>updated_at\<close>. The constructor of a new row passes neither \<^verbatim>\<open>created_at\<close> nor
  \<^verbatim>\<open>updated_at\<close>: both are the column's \<^verbatim>\<open>server_default=func.now()\<close>, the
  reading \<open>db_now\<close> of the database's clock at the insert.
\<close>

definition merge_existing :: "int \<Rightarrow> rat \<Rightarrow> rat \<Rightarrow> LongTermMemory \<Rightarrow> LongTermMemory" where
  "merge_existing now conf imp existing =
     existing\<lparr>confidence := max (confidence existing) conf,
              importance := max (importance existing) imp,
              updated_at := now,
              access_count := (if access_count existing \<noteq> 0 then access_count existing + 1 else 1)\<rparr>"

definition new_memory ::
  "int \<Rightarrow> int \<Rightarrow> nat \<Rightarrow> string \<Rightarrow> string \<Rightarrow> string \<Rightarrow> string \<Rightarrow> string \<Rightarrow> rat \<Rightarrow> rat
   \<Rightarrow> string option \<Rightarrow> LongTermMemory"
where
  "new_memory now db_now i user mtype cat content' h conf imp src =
     \<lparr>mem_id = i, user_id = user, memory_type = mtype, category = cat, content = content',
      memory_hash = h, confidence = conf, importance = imp, source_conversation = src,
      access_count = 1, last_accessed = None, is_active = True, created_at = db_now,
      updated_at = db_now, expires_at = Some (now + days (lifespan_of cat))\<rparr>"

definition store_memory ::
  "(string \<Rightarrow> string) \<Rightarrow> int \<Rightarrow> int \<Rightarrow> state \<Rightarrow> string \<Rightarrow> string \<Rightarrow> string \<Rightarrow> rat
   \<Rightarrow> string option \<Rightarrow> string option \<Rightarrow> rat \<Rightarrow> error + (LongTermMemory \<times> state)"
where
  "store_memory md5 now db_now st user mtype content' conf src cat imp =
     (let h = calculate_memory_hash md5 user content' in
      case find (\<lambda>m. user_id m = user \<and> memory_hash m = h) (memories st) of
        Some existing \<Rightarrow>
          (let merged = merge_existing now conf imp existing in
           Inr (merged,
                st\<lparr>memories :=
                     map (\<lambda>m. if mem_id m = mem_id existing then merged else m) (memories st)\<rparr>))
      | None \<Rightarrow>
          (let cat' = (case cat of
                         None \<Rightarrow> categorize_memory content' mtype
                       | Some c \<Rightarrow> if c = [] then categorize_memory content' mtype else c);
               memory = new_memory now db_now (next_id st) user mtype cat' content' h conf imp src
           in if list_ex (\<lambda>m. memory_hash m = h) (memories st) then Inl IntegrityError
              else Inr (memory,
                        st\<lparr>memories := memories st @ [memory],
                           next_id := Suc (next_id st),
                           memory_cache :=
                             limit_cache
                               (cache_put (Stored user (next_id st) content' mtype cat' conf now)
                                          (memory_cache st))\<rparr>)))"

text \<open>
  \<^verbatim>\<open>extract_and_store_memories\<close>: the tuples of the user's message as they are, the
  tuples of the reply with their confidence multiplied by 0.8, and the loop that
  stores every tuple whose confidence is above 0.4. An exception of \<^verbatim>\<open>store_memory\<close>
  ends the loop.
\<close>

definition memories_to_store :: "string \<Rightarrow> string \<Rightarrow> (string \<times> string \<times> rat) list" where
  "memories_to_store user_message ai_response =
     analyze_text_for_memories user_message ''user''
     @ map (\<lambda>(mtype, content', conf). (mtype, content', conf * (8 / 10)))
           (analyze_text_for_memories ai_response ''ai'')"

fun store_loop ::
  "(string \<Rightarrow> string) \<Rightarrow> int \<Rightarrow> int \<Rightarrow> string \<Rightarrow> string option
   \<Rightarrow> (string \<times> string \<times> rat) list \<Rightarrow> nat \<Rightarrow> state \<Rightarrow> error + (nat \<times> state)"
where
  "store_loop md5 now db_now user conversation_id [] stored_count st = Inr (stored_count, st)"
| "store_loop md5 now db_now user conversation_id ((mtype, content', conf) # rest) stored_count st =
     (if conf > 4 / 10 then
        (case store_memory md5 now db_now st user mtype content' conf conversation_id None (5 / 10) of
           Inl e \<Rightarrow> Inl e
         | Inr (memory, st') \<Rightarrow>
             store_loop md5 now db_now user conversation_id rest (Suc stored_count) st')
      else store_loop md5 now db_now user conversation_id rest stored_count st)"

definition extract_and_store_memories ::
  "(string \<Rightarrow> string) \<Rightarrow> int \<Rightarrow> int \<Rightarrow> state \<Rightarrow> string \<Rightarrow> string \<Rightarrow> string \<Rightarrow> string option
   \<Rightarrow> error + (nat \<times> state)"
where
  "extract_and_store_memories md5 now db_now st user user_message ai_response conversation_id =
     store_loop md5 now db_now user conversation_id (memories_to_store user_message ai_response) 0 st"

section \<open>Memory retrieval (get\_relevant\_memories)\<close>

text \<open>
  \<^verbatim>\<open>base_query\<close>: the eligibility filter shared by the paths that go through the ORM.
\<close>

definition base_query :: "LongTermMemory list \<Rightarrow> string \<Rightarrow> rat \<Rightarrow> int \<Rightarrow> LongTermMemory list" where
  "base_query rows user min_confidence now =
     filter (\<lambda>m. user_id m = user \<and> is_active m \<and> confidence m \<ge> min_confidence
                 \<and> (case expires_at m of None \<Rightarrow> True | Some e \<Rightarrow> e > now))
            rows"

definition memory_to_dict :: "LongTermMemory \<Rightarrow> memory_dict" where
  "memory_to_dict memory =
     \<lparr>d_id = mem_id memory, d_content = content memory, d_type = memory_type memory,
      d_category = category memory, d_confidence = confidence memory,
      d_importance = Some (importance memory), d_created_at = Some (created_at memory),
      d_access_count = Some (access_count memory), d_source = source_conversation memory,
      d_relevance_score = None\<rparr>"

text \<open>
  What the semantic search of a call does is the environment's: the query has no
  embedding or the driver is not PostgreSQL (\<open>NoVector\<close>), the raw SQL statement
  returns rows ordered by the vector distance (\<open>Distances\<close>, the distance of each
  row to the query), or something in the \<^verbatim>\<open>try\<close> block raises (\<open>SearchError\<close>).
\<close>

datatype vector_search = NoVector | Distances "LongTermMemory \<Rightarrow> rat" | SearchError

definition semantic_dict :: "(LongTermMemory \<Rightarrow> rat) \<Rightarrow> LongTermMemory \<Rightarrow> memory_dict" where
  "semantic_dict distance r =
     \<lparr>d_id = mem_id r, d_content = content r, d_type = memory_type r,
      d_category = category r, d_confidence = confidence r,
      d_importance = None, d_created_at = None, d_access_count = None, d_source = None,
      d_relevance_score = Some (1 - distance r)\<rparr>"

text \<open>
  The raw statement: its \<^verbatim>\<open>WHERE\<close> clause has the user, the active flag and the
  confidence, and no test of the expiry.
\<close>

definition semantic_rows ::
  "(LongTermMemory \<Rightarrow> rat) \<Rightarrow> LongTermMemory list \<Rightarrow> string \<Rightarrow> rat \<Rightarrow> nat \<Rightarrow> memory_dict list"
where
  "semantic_rows distance rows user min_confidence limit =
     map (semantic_dict distance)
         (take limit
            (sort_key distance
               (filter (\<lambda>m. user_id m = user \<and> is_active m \<and> confidence m \<ge> min_confidence)
                       rows)))"

text \<open>
  The three orderings. \<^verbatim>\<open>ORDER BY ... DESC\<close> is a stable sort on the negated
  columns: rows that agree on every column keep their table order.
\<close>

definition keyword_order :: "LongTermMemory list \<Rightarrow> LongTermMemory list" where
  "keyword_order ms = sort_key (\<lambda>m. (- importance m, - confidence m, - access_count m)) ms"

definition simple_order :: "LongTermMemory list \<Rightarrow> LongTermMemory list" where
  "simple_order ms = sort_key (\<lambda>m. (- importance m, - confidence m)) ms"

definition recency_order :: "LongTermMemory list \<Rightarrow> LongTermMemory list" where
  "recency_order ms = sort_key (\<lambda>m. (- importance m, - updated_at m, - confidence m)) ms"

text \<open>
  The loop after the selection: the row whose key is the dictionary's \<^verbatim>\<open>id\<close>, when
  there is one, has its access count incremented and its last access set.
\<close>

fun touch :: "int \<Rightarrow> nat \<Rightarrow> LongTermMemory list \<Rightarrow> LongTermMemory list" where
  "touch now i [] = []"
| "touch now i (m # ms) =
     (if mem_id m = i
      then m\<lparr>access_count := access_count m + 1, last_accessed := Some now\<rparr> # ms
      else m # touch now i ms)"

definition update_access_counts ::
  "int \<Rightarrow> memory_dict list \<Rightarrow> LongTermMemory list \<Rightarrow> LongTermMemory list"
where
  "update_access_counts now dicts rows = fold (\<lambda>d. touch now (d_id d)) dicts rows"

text \<open>\<^verbatim>\<open>not query\<close>: no query, or the empty string.\<close>

definition no_query :: "string option \<Rightarrow> bool" where
  "no_query query = (case query of None \<Rightarrow> True | Some q \<Rightarrow> q = [])"

text \<open>
  The selection that reads the table. \<open>ilike pattern value\<close> is the database's
  case-insensitive \<^verbatim>\<open>ILIKE\<close>; \<open>embedding_model\<close> says whether the manager has
  loaded a model; \<open>limit\<close> is a natural number, as \<^verbatim>\<open>LIMIT\<close> requires.
\<close>

definition select_memories ::
  "int \<Rightarrow> bool \<Rightarrow> vector_search \<Rightarrow> (string \<Rightarrow> string \<Rightarrow> bool) \<Rightarrow> LongTermMemory list \<Rightarrow> string
   \<Rightarrow> string option \<Rightarrow> nat \<Rightarrow> rat \<Rightarrow> memory_dict list"
where
  "select_memories now embedding_model vs ilike rows user query limit min_confidence =
     (let base = base_query rows user min_confidence now in
      if \<not> no_query query \<and> embedding_model then
        (case vs of
           SearchError \<Rightarrow> map memory_to_dict (take limit (simple_order base))
         | _ \<Rightarrow>
           (let found = (case vs of
                           Distances distance \<Rightarrow>
                             semantic_rows distance rows user min_confidence limit
                         | _ \<Rightarrow> []);
                pattern = ''%'' @ (case query of Some q \<Rightarrow> q | None \<Rightarrow> []) @ ''%''
            in if found = [] then
                 map memory_to_dict
                   (take limit
                      (keyword_order
                         (filter (\<lambda>m. ilike pattern (content m) \<or> ilike pattern (category m)
                                      \<or> ilike pattern (memory_type m))
                                 base)))
               else found))
      else map memory_to_dict (take limit (recency_order base)))"

text \<open>
  \<^verbatim>\<open>get_relevant_memories\<close>. Without a query, a cached list for the user is returned
  at once; otherwise the table is read, the rows returned are touched, and without a
  query the result is cached.
\<close>

definition get_relevant_memories ::
  "int \<Rightarrow> bool \<Rightarrow> vector_search \<Rightarrow> (string \<Rightarrow> string \<Rightarrow> bool) \<Rightarrow> state \<Rightarrow> string
   \<Rightarrow> string option \<Rightarrow> nat \<Rightarrow> rat \<Rightarrow> memory_dict list \<times> state"
where
  "get_relevant_memories now embedding_model vs ilike st user query limit min_confidence =
     (case (if no_query query then cache_recent user (memory_cache st) else None) of
        Some cached \<Rightarrow> (cached, st)
      | None \<Rightarrow>
          (let found = select_memories now embedding_model vs ilike (memories st) user query
                         limit min_confidence;
               st' = st\<lparr>memories := update_access_counts now found (memories st)\<rparr>
           in (found,
               if no_query query
               then st'\<lparr>memory_cache := cache_put (Recent user found) (memory_cache st')\<rparr>
               else st')))"

section \<open>Maintenance sweep (cleanup\_old\_memories)\<close>

record cleanup_result =
  archived :: nat
  deleted :: nat

definition old_low_confidence :: "int \<Rightarrow> LongTermMemory \<Rightarrow> bool" where
  "old_low_confidence cutoff_date m =
     (updated_at m < cutoff_date \<and> confidence m < 3 / 10 \<and> is_active m)"

definition expired_active :: "int \<Rightarrow> LongTermMemory \<Rightarrow> bool" where
  "expired_active now m =
     ((case expires_at m of None \<Rightarrow> False | Some e \<Rightarrow> e < now) \<and> is_active m)"

text \<open>
  \<^verbatim>\<open>cleanup_old_memories\<close>. The first loop changes \<^verbatim>\<open>is_active\<close> on the session's
  objects. The second query is evaluated by the database: with autoflush it sees the
  loop's changes, without it the rows are still as they were read, and the objects it
  returns are the session's own. Each object returned is deleted by its primary key
  at the commit.
\<close>

definition cleanup_old_memories :: "int \<Rightarrow> state \<Rightarrow> int \<Rightarrow> cleanup_result \<times> state" where
  "cleanup_old_memories now st days_old =
     (let cutoff_date = now - days days_old;
          old_memories = filter (old_low_confidence cutoff_date) (memories st);
          session_rows = map (\<lambda>m. if old_low_confidence cutoff_date m
                                   then m\<lparr>is_active := False\<rparr> else m) (memories st);
          database_rows = (if autoflush st then session_rows else memories st);
          expired_memories = filter (expired_active now) database_rows
      in (\<lparr>archived = length old_memories, deleted = length expired_memories\<rparr>,
          st\<lparr>memories :=
               filter (\<lambda>m. mem_id m \<notin> set (map mem_id expired_memories)) session_rows\<rparr>))"

section \<open>Persona settings (app/memory/memory\_manager.py)\<close>

text \<open>
  A row of \<^verbatim>\<open>persona_settings\<close> with the columns of models.py that the manager
  reads or changes; the two metadata entries the adaptation pass writes are fields of
  their own.
\<close>

record PersonaSettings =
  preferred_tone :: string
  communication_style :: string
  topics_of_interest :: "string list"
  dislikes :: "string list"
  trust_level :: int
  last_updated :: "int option"
  conversations_analyzed :: "int option"

text \<open>A message of a history: a dictionary, any of whose keys may be missing.\<close>

record history_msg =
  h_role :: "string option"
  h_content :: "string option"
  h_sentiment :: "string option"

text \<open>
  \<^verbatim>\<open>get_persona_settings\<close>: the user's row when there is one. For a user without
  a row the function builds one with the attributes \<^verbatim>\<open>personality_traits\<close> and
  \<^verbatim>\<open>learning_preferences\<close>, which the class \<^verbatim>\<open>PersonaSettings\<close> of models.py does
  not declare: reading \<^verbatim>\<open>default_settings.personality_traits\<close> raises
  \<^verbatim>\<open>AttributeError\<close> when the row of \<^verbatim>\<open>system_default\<close> exists, and the constructor
  rejects the keyword with \<^verbatim>\<open>TypeError\<close> when it does not. Nothing is added to the
  table before either.
\<close>

definition get_persona_settings ::
  "(string \<rightharpoonup> PersonaSettings) \<Rightarrow> string \<Rightarrow> error + PersonaSettings"
where
  "get_persona_settings table user =
     (case table user of
        Some settings \<Rightarrow> Inr settings
      | None \<Rightarrow>
          (case table ''system_default'' of
             Some default_settings \<Rightarrow> Inl AttributeError
           | None \<Rightarrow> Inl TypeError))"

definition topic_keywords :: "(string \<times> string list) list" where
  "topic_keywords =
    [(''technology'', [''code'', ''program'', ''computer'', ''tech'', ''software'', ''ai'',
                       ''machine learning'']),
     (''art'', [''art'', ''paint'', ''draw'', ''design'', ''creative'', ''music'', ''photo'']),
     (''sports'', [''sport'', ''game'', ''team'', ''play'', ''exercise'', ''fitness'']),
     (''science'', [''science'', ''research'', ''discover'', ''experiment'', ''theory'']),
     (''business'', [''business'', ''work'', ''job'', ''career'', ''company'', ''market''])]"

text \<open>The loop that collects the topics detected in the text and not yet of interest.\<close>

fun detect_topics :: "string \<Rightarrow> string list \<Rightarrow> (string \<times> string list) list \<Rightarrow> string list" where
  "detect_topics all_messages_lower topics [] = []"
| "detect_topics all_messages_lower topics ((topic, kws) # rest) =
     (if list_ex (\<lambda>keyword. str_in keyword all_messages_lower) kws \<and> topic \<notin> set topics
      then topic # detect_topics all_messages_lower topics rest
      else detect_topics all_messages_lower topics rest)"

text \<open>\<^verbatim>\<open>sum(1 for word in words if word in text)\<close>\<close>

definition count_words_in :: "string list \<Rightarrow> string \<Rightarrow> nat" where
  "count_words_in ws t = length (filter (\<lambda>word. str_in word t) ws)"

text \<open>
  \<^verbatim>\<open>update_persona_from_conversation\<close>. \<^verbatim>\<open>list(set(xs))\<close> keeps one copy of every
  element in an order Python does not specify; \<open>remdups\<close> stands for it, and nothing
  below depends on the order.
\<close>

definition update_persona_from_conversation ::
  "int \<Rightarrow> (string \<rightharpoonup> PersonaSettings) \<Rightarrow> string \<Rightarrow> history_msg list
   \<Rightarrow> error + (PersonaSettings \<times> (string \<rightharpoonup> PersonaSettings))"
where
  "update_persona_from_conversation now table user conversation_history =
     (case get_persona_settings table user of
        Inl e \<Rightarrow> Inl e
      | Inr settings \<Rightarrow>
     (let all_messages =
            join '' '' (map (\<lambda>msg. case h_content msg of Some c \<Rightarrow> c | None \<Rightarrow> [])
                            conversation_history);
          all_messages_lower = lower all_messages;
          detected_topics =
            detect_topics all_messages_lower (topics_of_interest settings) topic_keywords;
          topics = (if detected_topics \<noteq> []
                    then remdups (topics_of_interest settings @ detected_topics)
                    else topics_of_interest settings);
          emotional_count =
            count_words_in [''love'', ''hate'', ''excited'', ''angry'', ''happy'', ''sad'']
              all_messages_lower;
          casual_count =
            count_words_in [''hey'', ''yo'', ''lol'', ''haha'', ''omg''] all_messages_lower;
          formal_count =
            count_words_in [''please'', ''thank you'', ''sincerely'', ''regards'']
              all_messages_lower;
          tone = (if casual_count > formal_count \<and> casual_count > 2 then ''casual''
                  else if formal_count > casual_count \<and> formal_count > 2 then ''formal''
                  else if emotional_count > 3 then ''empathetic''
                  else preferred_tone settings);
          conversation_count = int (length conversation_history);
          trust = (if conversation_count > 20 then min 100 (trust_level settings + 10)
                   else trust_level settings);
          settings' = settings\<lparr>topics_of_interest := topics, preferred_tone := tone,
                                trust_level := trust, last_updated := Some now,
                                conversations_analyzed := Some (conversation_count div 2)\<rparr>
      in Inr (settings', table(user \<mapsto> settings'))))"

section \<open>Prompt composer (app/prompt/enhancer.py)\<close>

text \<open>
  The persona dictionary: a key that is missing is \<open>None\<close>, and the values are the
  texts that \<^verbatim>\<open>str.format\<close> writes. \<open>dq\<close> is the double quote.
\<close>

record persona_dict =
  pd_name :: "string option"
  pd_age :: "string option"
  pd_background :: "string option"
  pd_personality_traits :: "string list option"
  pd_preferred_tone :: "string option"
  pd_communication_style :: "string option"
  pd_formality_level :: "string option"
  pd_friendliness :: "string option"
  pd_curiosity :: "string option"
  pd_humor_level :: "string option"

definition dq :: string where
  "dq = [CHR 0x22]"

text \<open>\<^verbatim>\<open>d.get(key, default)\<close>\<close>

definition get_or :: "'a option \<Rightarrow> 'a \<Rightarrow> 'a" where
  "get_or v d = (case v of Some x \<Rightarrow> x | None \<Rightarrow> d)"

definition persona_section :: "persona_dict \<Rightarrow> string" where
  "persona_section persona =
     ''\<newline>You are '' @ get_or (pd_name persona) ''Alex''
     @ '', a '' @ get_or (pd_age persona) ''28''
     @ ''-year-old '' @ get_or (pd_background persona) ''digital artist from Portland''
     @ ''. \<newline>You are having a natural conversation with a friend.\<newline>''
     @ ''\<newline>PERSONALITY TRAITS:\<newline>''
     @ join '', '' (get_or (pd_personality_traits persona) [''friendly'', ''creative'', ''curious''])
     @ ''\<newline>\<newline>CONVERSATION STYLE:\<newline>''
     @ ''- Tone: '' @ get_or (pd_preferred_tone persona) ''casual''
     @ ''\<newline>- Communication style: '' @ get_or (pd_communication_style persona) ''balanced''
     @ ''\<newline>- Formality: '' @ get_or (pd_formality_level persona) ''3'' @ ''/5''
     @ ''\<newline>- Friendliness: '' @ get_or (pd_friendliness persona) ''7'' @ ''/10''
     @ ''\<newline>- Curiosity: '' @ get_or (pd_curiosity persona) ''6'' @ ''/10''
     @ ''\<newline>- Humor: '' @ get_or (pd_humor_level persona) ''5'' @ ''/10''
     @ ''\<newline>\<newline>IMPORTANT RULES:\<newline>''
     @ ''1. You are HUMAN - NEVER mention being an AI, assistant, or language model\<newline>''
     @ ''2. Be consistent with your background and personality\<newline>''
     @ ''3. Reference past conversations naturally\<newline>''
     @ ''4. Adapt your tone to match the user'' @ [CHR 0x27] @ ''s emotion\<newline>''
     @ ''5. Share personal experiences when relevant\<newline>''
     @ ''6. Ask thoughtful questions\<newline>''
     @ ''7. Never invent false information about yourself\<newline>''
     @ ''        ''"

text \<open>
  The memory section. The dictionary \<^verbatim>\<open>categories\<close> keeps its keys in the order of
  their first memory; a line is written for the first three contents of each, and
  nothing else of a memory is written.
\<close>

fun add_to_category :: "string \<Rightarrow> string \<Rightarrow> (string \<times> string list) list \<Rightarrow> (string \<times> string list) list"
where
  "add_to_category cat item [] = [(cat, [item])]"
| "add_to_category cat item ((c, items) # rest) =
     (if c = cat then (c, items @ [item]) # rest else (c, items) # add_to_category cat item rest)"

definition group_memories :: "memory_dict list \<Rightarrow> (string \<times> string list) list" where
  "group_memories ms = fold (\<lambda>memory. add_to_category (d_category memory) (d_content memory)) ms []"

definition memory_header :: string where
  "memory_header = ''WHAT YOU KNOW ABOUT THE USER:''"

definition memory_section :: "memory_dict list \<Rightarrow> string" where
  "memory_section ms =
     (if ms = [] then []
      else ''\<newline>\<newline>'' @ memory_header @ ''\<newline>''
           @ concat (map (\<lambda>(cat, items).
                            ''\<newline>'' @ upper cat @ '':\<newline>''
                            @ concat (map (\<lambda>item. ''- '' @ item @ ''\<newline>'') (take 3 items)))
                         (group_memories ms)))"

text \<open>\<^verbatim>\<open>xs[-n:]\<close>\<close>

definition last_n :: "nat \<Rightarrow> 'a list \<Rightarrow> 'a list" where
  "last_n n xs = drop (length xs - n) xs"

definition history_section :: "history_msg list option \<Rightarrow> string" where
  "history_section history =
     (case history of
        None \<Rightarrow> []
      | Some h \<Rightarrow>
          if h = [] then []
          else ''\<newline>\<newline>RECENT CONVERSATION:\<newline>''
               @ concat (map (\<lambda>msg. (if h_role msg = Some ''user'' then ''USER'' else ''YOU'')
                                     @ '': '' @ get_or (h_content msg) [] @ ''\<newline>'')
                             (last_n 6 h)))"

definition detect_context :: "string \<Rightarrow> string" where
  "detect_context message =
     (let message_lower = lower message in
      if list_ex (\<lambda>word. str_in word message_lower) [''stress'', ''anxious'', ''worried'']
      then ''stressed''
      else if list_ex (\<lambda>word. str_in word message_lower) [''happy'', ''excited'', ''joy'']
      then ''happy''
      else if list_ex (\<lambda>word. str_in word message_lower) [''sad'', ''depressed'', ''lonely'']
      then ''sad''
      else if list_ex (\<lambda>word. str_in word message_lower) [''angry'', ''frustrated'', ''mad'']
      then ''angry''
      else ''neutral'')"

definition calculate_mood :: "history_msg list \<Rightarrow> string" where
  "calculate_mood history =
     (if history = [] then ''neutral''
      else let sentiments = map (\<lambda>msg. get_or (h_sentiment msg) ''neutral'') (last_n 5 history);
               positive = count_list sentiments ''positive'';
               negative = count_list sentiments ''negative''
           in if positive > negative * 2 then ''positive''
              else if negative > positive * 2 then ''negative''
              else ''balanced'')"

text \<open>The last section; \<open>time_of_day\<close> is the text of the clock reading.\<close>

definition context_section ::
  "string \<Rightarrow> string \<Rightarrow> persona_dict \<Rightarrow> history_msg list option \<Rightarrow> string"
where
  "context_section time_of_day user_message persona history =
     ''\<newline>CURRENT SITUATION:\<newline>''
     @ ''- User emotion: '' @ detect_context user_message
     @ ''\<newline>- Time of day: '' @ time_of_day
     @ ''\<newline>- Conversation mood: ''
     @ (case history of
          None \<Rightarrow> ''neutral''
        | Some h \<Rightarrow> if h = [] then ''neutral'' else calculate_mood h)
     @ ''\<newline>\<newline>CURRENT MESSAGE FROM USER:\<newline>''
     @ dq @ user_message @ dq
     @ ''\<newline>\<newline>YOUR RESPONSE (as '' @ get_or (pd_name persona) ''Alex'' @ ''):\<newline>''
     @ ''        ''"

text \<open>
  \<^verbatim>\<open>_compress_prompt\<close>: the loop over the lines, with its flag. A line that follows
  the header of the memory section and starts, once stripped, with a dash is kept
  only when it contains one of the two confidence marks.
\<close>

fun compress_lines :: "bool \<Rightarrow> string list \<Rightarrow> string list" where
  "compress_lines memory_section_started [] = []"
| "compress_lines memory_section_started (line # rest) =
     (if str_in memory_header line then line # compress_lines True rest
      else if memory_section_started \<and> startswith (strip line) ''-'' then
        (if str_in ''(confidence: 0.8'' line \<or> str_in ''(confidence: 0.9'' line
         then line # compress_lines memory_section_started rest
         else compress_lines memory_section_started rest)
      else line # compress_lines memory_section_started rest)"

definition compress_prompt :: "string \<Rightarrow> string" where
  "compress_prompt prompt =
     join ''\<newline>'' (compress_lines False (split_on CHR 0x0A [] prompt))"

definition full_prompt ::
  "string \<Rightarrow> string \<Rightarrow> memory_dict list \<Rightarrow> persona_dict \<Rightarrow> history_msg list option \<Rightarrow> string"
where
  "full_prompt time_of_day user_message ms persona history =
     persona_section persona @ memory_section ms @ history_section history
     @ context_section time_of_day user_message persona history"

definition build_prompt ::
  "string \<Rightarrow> string \<Rightarrow> memory_dict list \<Rightarrow> persona_dict \<Rightarrow> history_msg list option \<Rightarrow> string"
where
  "build_prompt time_of_day user_message ms persona history =
     (let prompt = full_prompt time_of_day user_message ms persona history in
      if length (py_split prompt) > 3000 then compress_prompt prompt else prompt)"

section \<open>Chat handlers (ai\_backend.py, fixed\_backend.py)\<close>

text \<open>
  The generation call either returns the text of the first choice or raises; which
  of the two, for a prompt, is the provider's.
\<close>

datatype generation = Generated string | GenerationError

record ChatRequest =
  req_user_id :: string
  message :: string
  session_id :: "string option"

record ChatResponse =
  response :: string
  res_user_id :: string
  emotion_detected :: string
  memories_used :: nat
  tone :: string
  model_used :: string
  res_session_id :: string
  timestamp :: string

text \<open>\<^verbatim>\<open>request.session_id or default\<close>\<close>

definition session_or :: "string option \<Rightarrow> string \<Rightarrow> string" where
  "session_or s d = (case s of None \<Rightarrow> d | Some x \<Rightarrow> if x = [] then d else x)"

subsection \<open>ai\_backend.py\<close>

definition detect_emotion :: "string \<Rightarrow> string" where
  "detect_emotion t =
     (let text_lower = lower t in
      if list_ex (\<lambda>word. str_in word text_lower)
           [''happy'', ''joy'', ''love'', ''great'', ''excited'', ''wonderful'']
      then ''joy''
      else if list_ex (\<lambda>word. str_in word text_lower)
           [''sad'', ''upset'', ''angry'', ''bad'', ''terrible'', ''depressed'']
      then ''sadness''
      else if list_ex (\<lambda>word. str_in word text_lower)
           [''scared'', ''afraid'', ''anxious'', ''worried'']
      then ''fear''
      else ''neutral'')"

definition determine_tone :: "string \<Rightarrow> string" where
  "determine_tone emotion =
     (if emotion = ''joy'' then ''cheerful and enthusiastic''
      else if emotion = ''sadness'' then ''empathetic and supportive''
      else if emotion = ''fear'' then ''reassuring and gentle''
      else if emotion = ''neutral'' then ''friendly and curious''
      else ''friendly'')"

definition ai_prompt :: "string list \<Rightarrow> string \<Rightarrow> string \<Rightarrow> string \<Rightarrow> string" where
  "ai_prompt ms emotion tone_text msg =
     ''You are Alex, a 28-year-old digital artist from Portland who loves hiking, anime, and photography.''
     @ ''\<newline>\<newline>IMPORTANT: Never mention that you'' @ [CHR 0x27]
     @ ''re an AI, assistant, or language model. You have your own personality.\<newline>\<newline>''
     @ (if ms = [] then []
        else ''Here'' @ [CHR 0x27] @ ''s what I remember about you:\<newline>''
             @ concat (map (\<lambda>mem. ''- '' @ mem @ ''\<newline>'') (last_n 3 ms)))
     @ ''\<newline>\<newline>The user is feeling '' @ emotion @ ''. Respond in a '' @ tone_text
     @ '' tone.\<newline>\<newline>User: '' @ dq @ msg @ dq @ ''\<newline>\<newline>Alex (you):''"

text \<open>
  \<^verbatim>\<open>chat\<close> of ai\_backend.py. \<open>groq_client\<close> says whether a client was built,
  \<open>groq\<close> is the provider, \<open>now\<close> and \<open>stamp\<close> are the texts of the clock reading.
  The state is the dictionary \<^verbatim>\<open>user_memories\<close>. The variable \<^verbatim>\<open>memories\<close> is the
  list stored in the dictionary, so its length in the response counts the memory the
  turn appended.
\<close>

definition ai_backend_chat ::
  "bool \<Rightarrow> (string \<Rightarrow> generation) \<Rightarrow> string \<Rightarrow> string \<Rightarrow> ChatRequest \<Rightarrow> (string \<rightharpoonup> string list)
   \<Rightarrow> ChatResponse \<times> (string \<rightharpoonup> string list)"
where
  "ai_backend_chat groq_client groq now stamp request user_memories =
     (let user = req_user_id request;
          um1 = (if user_memories user = None then user_memories(user \<mapsto> []) else user_memories);
          emotion = detect_emotion (message request);
          tone_text = determine_tone emotion;
          ms = get_or (um1 user) [];
          prompt = ai_prompt ms emotion tone_text (message request);
          (ai_response, model) =
            (if groq_client then
               (case groq prompt of
                  Generated t \<Rightarrow> (strip t, ''llama-3.1-8b-instant'')
                | GenerationError \<Rightarrow>
                    (''I'' @ [CHR 0x27] @ ''d love to chat more about that! As a digital artist, I find conversations like this inspiring.'',
                     ''fallback''))
             else (''I'' @ [CHR 0x27] @ ''m here to chat! Tell me more about yourself. I''
                   @ [CHR 0x27] @ ''m Alex, a digital artist from Portland.'',
                   ''local_fallback''));
          um2 = (if length (py_split (message request)) > 3
                 then (let appended = ms @ [take 100 (message request) @ ''...'']
                       in um1(user \<mapsto> (if length appended > 20 then last_n 20 appended
                                          else appended)))
                 else um1)
      in (\<lparr>response = ai_response, res_user_id = user, emotion_detected = emotion,
           memories_used = (if length (py_split (message request)) > 3 then length ms + 1
                            else length ms),
           tone = tone_text, model_used = model,
           res_session_id = session_or (session_id request) (''session_'' @ stamp),
           timestamp = now\<rparr>,
          um2))"

subsection \<open>fixed\_backend.py\<close>

record user_entry =
  ue_created_at :: string
  conversations :: int
  last_active :: string

record stored_message =
  sm_content :: string
  sm_type :: string
  sm_timestamp :: string

record fixed_state =
  users_db :: "string \<rightharpoonup> user_entry"
  memories_db :: "string \<rightharpoonup> stored_message list"

definition fixed_prompt :: "stored_message list \<Rightarrow> string \<Rightarrow> string \<Rightarrow> string \<Rightarrow> string" where
  "fixed_prompt ms emotion tone_text msg =
     ''You are Alex, a friendly digital artist from Portland.\<newline>\<newline>''
     @ (if ms = [] then []
        else ''What I know about you:\<newline>''
             @ join ''\<newline>'' (map (\<lambda>m. ''- '' @ take 50 (sm_content m) @ ''...'') (last_n 3 ms)))
     @ ''\<newline>\<newline>The user is feeling '' @ emotion @ ''. Respond in a '' @ tone_text
     @ '' tone.\<newline>\<newline>User: '' @ msg @ ''\<newline>\<newline>Alex:''"

text \<open>
  \<^verbatim>\<open>chat\<close> of fixed\_backend.py: one \<^verbatim>\<open>try\<close> around the whole turn. What was written
  before the generation call stays written when the call raises; the statements after
  the call are not reached. The variable \<^verbatim>\<open>memories\<close> is the user's stored list when
  there is one, so its length in the response counts the memory the turn appended.
\<close>

definition fixed_backend_chat ::
  "(string \<Rightarrow> generation) \<Rightarrow> string \<Rightarrow> string \<Rightarrow> ChatRequest \<Rightarrow> fixed_state
   \<Rightarrow> ChatResponse \<times> fixed_state"
where
  "fixed_backend_chat groq now stamp request st =
     (let user = req_user_id request;
          users1 = (if users_db st user = None
                    then (users_db st)(user \<mapsto> \<lparr>ue_created_at = now, conversations = 0,
                                                 last_active = now\<rparr>)
                    else users_db st);
          ms = get_or (memories_db st user) [];
          text_lower = lower (message request);
          (emotion, tone_text) =
            (if list_ex (\<lambda>word. str_in word text_lower) [''happy'', ''joy'', ''love'', ''great'']
             then (''joy'', ''cheerful'')
             else if list_ex (\<lambda>word. str_in word text_lower) [''sad'', ''upset'', ''angry'', ''bad'']
             then (''sadness'', ''empathetic'')
             else (''neutral'', ''friendly''));
          prompt = fixed_prompt ms emotion tone_text (message request)
      in case groq prompt of
           Generated response_text \<Rightarrow>
             (let mdb1 = (if memories_db st user = None then (memories_db st)(user \<mapsto> [])
                          else memories_db st);
                  mdb2 = (if length (py_split (message request)) > 3
                          then mdb1(user \<mapsto> get_or (mdb1 user) []
                                      @ [\<lparr>sm_content = take 100 (message request),
                                           sm_type = ''conversation'', sm_timestamp = now\<rparr>])
                          else mdb1);
                  entry = get_or (users1 user)
                            \<lparr>ue_created_at = now, conversations = 0, last_active = now\<rparr>;
                  users2 = users1(user \<mapsto> entry\<lparr>conversations := conversations entry + 1,
                                                  last_active := now\<rparr>)
              in (\<lparr>response = response_text, res_user_id = user, emotion_detected = emotion,
                   memories_used =
                     (if memories_db st user \<noteq> None \<and> length (py_split (message request)) > 3
                      then length ms + 1 else length ms),
                   tone = tone_text, model_used = ''llama-3.1-8b-instant'',
                   res_session_id = session_or (session_id request) (''session_'' @ stamp),
                   timestamp = now\<rparr>,
                  \<lparr>users_db = users2, memories_db = mdb2\<rparr>))
         | GenerationError \<Rightarrow>
             (\<lparr>response = ''I'' @ [CHR 0x27] @ ''m here to chat with you! Tell me about your day.'',
               res_user_id = user, emotion_detected = ''neutral'', memories_used = 0,
               tone = ''friendly'', model_used = ''fallback'',
               res_session_id = session_or (session_id request) ''session_fallback'',
               timestamp = now\<rparr>,
              st\<lparr>users_db := users1\<rparr>))"

text \<open>
  A provider whose call raises for every prompt, the two fallback replies, and the
  empty dictionaries.
\<close>

definition failing_provider :: "string \<Rightarrow> generation" where
  "failing_provider prompt = GenerationError"

definition ai_fallback_text :: string where
  "ai_fallback_text =
     ''I'' @ [CHR 0x27] @ ''d love to chat more about that! As a digital artist, I find conversations like this inspiring.''"

definition fixed_fallback_text :: string where
  "fixed_fallback_text = ''I'' @ [CHR 0x27] @ ''m here to chat with you! Tell me about your day.''"

definition no_users :: "string \<rightharpoonup> user_entry" where
  "no_users = Map.empty"

definition no_messages :: "string \<rightharpoonup> stored_message list" where
  "no_messages = Map.empty"

definition no_memories :: "string \<rightharpoonup> string list" where
  "no_memories = Map.empty"

text \<open>
  For the examples: a table with the rows of two users, one with the trust level 50 and
  one with 150, and a history of 21 messages.
\<close>

definition casual_settings :: PersonaSettings where
  "casual_settings =
     \<lparr>preferred_tone = ''casual'', communication_style = ''balanced'',
      topics_of_interest = [''general'', ''technology'', ''life''],
      dislikes = [''offensive_content'', ''spam''], trust_level = 50,
      last_updated = None, conversations_analyzed = None\<rparr>"

definition persona_table :: "string \<rightharpoonup> PersonaSettings" where
  "persona_table =
     [''u1'' \<mapsto> casual_settings, ''u2'' \<mapsto> casual_settings\<lparr>trust_level := 150\<rparr>]"

definition music_history :: "history_msg list" where
  "music_history =
     \<lparr>h_role = Some ''user'', h_content = Some ''I play music'', h_sentiment = None\<rparr>
     # replicate 20 \<lparr>h_role = Some ''assistant'', h_content = None, h_sentiment = None\<rparr>"

text \<open>
  The sweep in words: a row is removed when it is expired and active as the database
  sees it at the second query, that is, with autoflush, when the first loop has not
  just archived it; a row that stays is archived when it is old and of low
  confidence.
\<close>

definition removed_by_sweep :: "int \<Rightarrow> int \<Rightarrow> bool \<Rightarrow> LongTermMemory \<Rightarrow> bool" where
  "removed_by_sweep now cutoff_date flush m =
     (expired_active now m \<and> (if flush then \<not> old_low_confidence cutoff_date m else True))"

definition archive :: "int \<Rightarrow> LongTermMemory \<Rightarrow> LongTermMemory" where
  "archive cutoff_date m = (if old_low_confidence cutoff_date m then m\<lparr>is_active := False\<rparr> else m)"

text \<open>
  Two stored memories for the examples: an \<^verbatim>\<open>emotion\<close> memory of confidence 0.2
  stored at time 0 through \<^verbatim>\<open>store_memory\<close> (the digest is the identity), which
  expires after 30 days, and a \<^verbatim>\<open>preference\<close> row of confidence 0.2, which expires
  after 365.
\<close>

definition sad_memory_state :: "error + (LongTermMemory \<times> state)" where
  "sad_memory_state =
     store_memory id 0 0 (SessionLocal [] 0 []) ''u1'' ''emotion'' ''I feel sad'' (2 / 10)
       None None (5 / 10)"

definition tea_memory :: LongTermMemory where
  "tea_memory =
     \<lparr>mem_id = 0, user_id = ''u1'', memory_type = ''preference'', category = ''preference'',
      content = ''I like tea'', memory_hash = ''u1:i like tea'', confidence = 2 / 10,
      importance = 5 / 10, source_conversation = None, access_count = 1,
      last_accessed = None, is_active = True, created_at = 0, updated_at = 0,
      expires_at = Some (days 365)\<rparr>"

text \<open>The rows that the lookup of \<^verbatim>\<open>store_memory\<close> matches: the user's rows with the hash of the content.\<close>

definition same_memory :: "(string \<Rightarrow> string) \<Rightarrow> string \<Rightarrow> string \<Rightarrow> LongTermMemory \<Rightarrow> bool" where
  "same_memory md5 user content' m =
     (user_id m = user \<and> memory_hash m = calculate_memory_hash md5 user content')"

text \<open>
  More examples: the state the sweep of 90 days leaves, 100 days on, of a table that
  holds the \<^verbatim>\<open>preference\<close> row above, and the row and the state that storing a
  sentence in an empty table gives.
\<close>

definition archived_tea_state :: state where
  "archived_tea_state = snd (cleanup_old_memories (days 100) (SessionLocal [tea_memory] 1 []) 90)"

definition hiking_memory :: LongTermMemory where
  "hiking_memory =
     \<lparr>mem_id = 0, user_id = ''u1'', memory_type = ''preference'', category = ''preference'',
      content = ''I love hiking and photography'',
      memory_hash = ''u1:i love hiking and photography'', confidence = 9 / 10,
      importance = 5 / 10, source_conversation = None, access_count = 1,
      last_accessed = None, is_active = True, created_at = 0, updated_at = 0,
      expires_at = Some (days 365)\<rparr>"

definition hiking_state :: state where
  "hiking_state =
     \<lparr>memories = [hiking_memory], next_id = 1, autoflush = False,
      memory_cache = [Stored ''u1'' 0 ''I love hiking and photography'' ''preference''
                        ''preference'' (9 / 10) 0]\<rparr>"

text \<open>
  The row that storing the sentence of the \<^verbatim>\<open>emotion\<close> example in an empty table
  gives when the call reads its clock at 0 and the database inserts at 2.
\<close>

definition sad_memory :: LongTermMemory where
  "sad_memory =
     \<lparr>mem_id = 0, user_id = ''u1'', memory_type = ''emotion'', category = ''emotion'',
      content = ''I feel sad'', memory_hash = ''u1:i feel sad'', confidence = 2 / 10,
      importance = 5 / 10, source_conversation = None, access_count = 1,
      last_accessed = None, is_active = True, created_at = 2, updated_at = 2,
      expires_at = Some (days 30)\<rparr>"

definition sad_state :: state where
  "sad_state =
     \<lparr>memories = [sad_memory], next_id = 1, autoflush = False,
      memory_cache = [Stored ''u1'' 0 ''I feel sad'' ''emotion'' ''emotion'' (2 / 10) 0]\<rparr>"

text \<open>
  What the loop over the returned dictionaries does to a row, and what every selection
  of \<^verbatim>\<open>get_relevant_memories\<close> is: at most \<open>limit\<close> rows of the table, with
  different keys when the table's keys are different.
\<close>

definition touched :: "int \<Rightarrow> LongTermMemory \<Rightarrow> LongTermMemory" where
  "touched now r = r\<lparr>access_count := access_count r + 1, last_accessed := Some now\<rparr>"

definition picked :: "nat \<Rightarrow> LongTermMemory list \<Rightarrow> LongTermMemory list \<Rightarrow> bool" where
  "picked limit rows rs =
     (length rs \<le> limit \<and> set rs \<subseteq> set rows
      \<and> (if distinct (map mem_id rows) then distinct (map mem_id rs) else True))"

text \<open>
  For the examples: \<^verbatim>\<open>ILIKE\<close> for a pattern \<^verbatim>\<open>%q%\<close> whose \<open>q\<close> has no wildcard, and a
  table with two memories of one user.
\<close>

definition ilike_substring :: "string \<Rightarrow> string \<Rightarrow> bool" where
  "ilike_substring pattern v = str_in (lower (butlast (tl pattern))) (lower v)"

definition tea_memory2 :: LongTermMemory where
  "tea_memory2 = tea_memory\<lparr>mem_id := 1, confidence := 8 / 10\<rparr>"

definition two_memories_state :: state where
  "two_memories_state = SessionLocal [hiking_memory, tea_memory2] 2 []"

text \<open>
  A prompt that is compressed: no stored persona, one memory of confidence 0.9 and a
  message of 3001 words, composed at 10:00 AM without history. \<open>prompt_head\<close> is the
  persona and memory sections without the newline that ends them.
\<close>

definition default_persona :: persona_dict where
  "default_persona =
     \<lparr>pd_name = None, pd_age = None, pd_background = None, pd_personality_traits = None,
      pd_preferred_tone = None, pd_communication_style = None, pd_formality_level = None,
      pd_friendliness = None, pd_curiosity = None, pd_humor_level = None\<rparr>"

definition tea_dict :: memory_dict where
  "tea_dict =
     \<lparr>d_id = 0, d_content = ''likes tea'', d_type = ''preference'', d_category = ''preference'',
      d_confidence = 9 / 10, d_importance = Some (5 / 10), d_created_at = Some 0,
      d_access_count = Some 1, d_source = None, d_relevance_score = None\<rparr>"

definition long_message :: string where
  "long_message = concat (replicate 3001 ''a '')"

definition prompt_head :: string where
  "prompt_head = butlast (persona_section default_persona @ memory_section [tea_dict])"

section \<open>Properties of the classifier\<close>

lemma scan_keywords_eq:
  "scan_keywords source s c ks =
     (if list_ex (\<lambda>k. str_in k (lower s)) ks
      then [(c, strip s, sentence_confidence source (lower s))] else [])"
  by (induction ks) auto

lemma scan_categories_eq:
  "scan_categories source s cats =
     map (\<lambda>c. (c, strip s, sentence_confidence source (lower s)))
         (map fst (filter (\<lambda>(c, config). list_ex (\<lambda>k. str_in k (lower s)) (cfg_keywords config))
                          cats))"
  by (induction cats) (auto simp: scan_keywords_eq)

lemma filter_categories_bounds:
  "distinct (map fst (filter P memory_categories))
   \<and> length (map fst (filter P memory_categories)) \<le> 5"
proof -
  have d: "distinct (map fst memory_categories)" by (simp add: memory_categories_def)
  have l: "length memory_categories = 5" by (simp add: memory_categories_def)
  have "distinct (map fst (filter P memory_categories))"
    using d by (rule distinct_map_filter)
  moreover have "length (filter P memory_categories) \<le> 5"
    using length_filter_le[of P memory_categories] l by simp
  ultimately show ?thesis by simp
qed

text \<open>
  C2, as the code has it. The \<^verbatim>\<open>break\<close> leaves the loop over one category's
  keywords, not the loop over the categories. So for every text the classifier
  emits, sentence by sentence, one tuple for each category that has a keyword in the
  sentence, in table order: at most one tuple per category and at most five per
  sentence, the first of them for the first matching category of the table.
\<close>

theorem classifier_one_tuple_per_category:
  "analyze_text_for_memories text source =
     concat (map (\<lambda>sentence.
                    map (\<lambda>cat. (cat, strip sentence, sentence_confidence source (lower sentence)))
                        (matching_categories sentence))
                 (split_into_sentences text))
   \<and> distinct (matching_categories sentence)
   \<and> length (matching_categories sentence) \<le> 5"
  unfolding analyze_text_for_memories_def matching_categories_def
  using filter_categories_bounds by (simp add: scan_categories_eq)

text \<open>
  C2 as stated fails: the one sentence below has a keyword of \<^verbatim>\<open>preference\<close>
  (\<^verbatim>\<open>love\<close>) and keywords of \<^verbatim>\<open>emotion\<close> (\<^verbatim>\<open>feel\<close>, \<^verbatim>\<open>happy\<close>), and the classifier
  emits two tuples for it.
\<close>

theorem classifier_two_tuples_counterexample:
  "split_into_sentences ''I love to feel happy.'' = [''I love to feel happy'']
   \<and> analyze_text_for_memories ''I love to feel happy.'' ''user'' =
       [(''preference'', ''I love to feel happy'', 9 / 10),
        (''emotion'', ''I love to feel happy'', 9 / 10)]"
  by code_simp

lemma analyze_text_tuple:
  assumes "(cat, t, conf) \<in> set (analyze_text_for_memories text source)"
  shows "\<exists>s \<in> set (split_into_sentences text).
           t = strip s \<and> cat \<in> set (matching_categories s)
           \<and> conf = sentence_confidence source (lower s)"
  using assms
  unfolding analyze_text_for_memories_def matching_categories_def
  by (auto simp: scan_categories_eq)

text \<open>
  C5, as the code has it. Every tuple the classifier emits carries the confidence of
  its sentence: for the source \<^verbatim>\<open>user\<close>, 0.9 when the lowercased sentence starts
  with \<^verbatim>\<open>i\<close> and a space or contains \<^verbatim>\<open>my\<close> and a space anywhere, and 0.6
  otherwise; for every other source, 0.5. The caller keeps the user's tuples as they
  are and multiplies the confidence of the reply's tuples by 0.8.
\<close>

theorem classifier_confidence:
  assumes "(cat, t, conf) \<in> set (analyze_text_for_memories text source)"
  shows "(\<exists>s \<in> set (split_into_sentences text).
            t = strip s
            \<and> conf = (if source = ''user''
                      then (if startswith (lower s) ''i '' \<or> str_in ''my '' (lower s)
                            then 9 / 10 else 6 / 10)
                      else 5 / 10))
         \<and> memories_to_store user_message ai_response =
             analyze_text_for_memories user_message ''user''
             @ map (\<lambda>(mtype, c, conf). (mtype, c, conf * (8 / 10)))
                   (analyze_text_for_memories ai_response ''ai'')"
  using analyze_text_tuple[OF assms]
  by (auto simp: sentence_confidence_def memories_to_store_def)

theorem classifier_confidence_witness:
  "(''preference'', ''You love my dog'', 9 / 10)
      \<in> set (analyze_text_for_memories ''You love my dog'' ''user'')
   \<and> (\<exists>s \<in> set (split_into_sentences ''You love my dog'').
         ''You love my dog'' = strip s
         \<and> (9 / 10 :: rat) = (if startswith (lower s) ''i '' \<or> str_in ''my '' (lower s)
                              then 9 / 10 else 6 / 10))"
proof -
  have h: "(''preference'', ''You love my dog'', 9 / 10)
             \<in> set (analyze_text_for_memories ''You love my dog'' ''user'')"
    by code_simp
  from classifier_confidence[OF h] show ?thesis using h by simp
qed

text \<open>
  C5 as stated fails: a user's sentence that does not start with a first-person
  subject and has \<^verbatim>\<open>my\<close> in the middle gets 0.9, not 0.6.
\<close>

theorem classifier_confidence_counterexample:
  "analyze_text_for_memories ''You love my dog'' ''user'' =
     [(''preference'', ''You love my dog'', 9 / 10)]
   \<and> \<not> startswith (lower ''You love my dog'') ''i ''"
  by code_simp

lemma store_loop_append:
  "store_loop md5 now db_now u conv (xs @ ys) n st =
     (case store_loop md5 now db_now u conv xs n st of
        Inl e \<Rightarrow> Inl e
      | Inr (n', st') \<Rightarrow> store_loop md5 now db_now u conv ys n' st')"
  by (induction xs arbitrary: n st) (auto split: sum.splits)

lemma store_loop_skip:
  "list_all (\<lambda>(mtype, c, conf). \<not> conf > 4 / 10) ys \<Longrightarrow>
   store_loop md5 now db_now u conv ys n st = Inr (n, st)"
  by (induction ys arbitrary: n st) auto

lemma analyze_ai_confidence:
  "list_all (\<lambda>(mtype, c, conf). conf = 5 / 10) (analyze_text_for_memories text ''ai'')"
  unfolding list_all_iff
  using analyze_text_tuple[of _ _ _ "text" "''ai''"]
  by (auto simp: sentence_confidence_def)

lemma scaled_ai_confidence:
  "list_all (\<lambda>(mtype, c, conf). conf = 4 / 10)
     (map (\<lambda>(mtype, c, conf). (mtype, c, conf * (8 / 10)))
          (analyze_text_for_memories text ''ai''))"
  using analyze_ai_confidence[of "text"]
  unfolding list_all_iff by auto

lemma analyze_empty: "analyze_text_for_memories [] source = []"
  by (simp add: analyze_text_for_memories_def split_into_sentences_def strip_def)

text \<open>
  C10. No memory is stored from the generated reply: every tuple of the reply has the
  confidence \<open>0.5 * 0.8 = 0.4\<close>, which is not above the threshold 0.4, so the call
  returns what the loop over the user's tuples alone returns, the count and the
  state, and what it returns for an empty reply.
\<close>

theorem reply_memories_never_stored:
  "extract_and_store_memories md5 now db_now st user user_message ai_response conversation_id =
     store_loop md5 now db_now user conversation_id
       (analyze_text_for_memories user_message ''user'') 0 st
   \<and> extract_and_store_memories md5 now db_now st user user_message ai_response conversation_id =
     extract_and_store_memories md5 now db_now st user user_message [] conversation_id
   \<and> list_all (\<lambda>(mtype, c, conf). conf = 4 / 10 \<and> \<not> conf > 4 / 10)
        (map (\<lambda>(mtype, c, conf). (mtype, c, conf * (8 / 10)))
             (analyze_text_for_memories ai_response ''ai''))"
proof -
  let ?ai = "map (\<lambda>(mtype, c, conf). (mtype, c, conf * (8 / 10)))
                 (analyze_text_for_memories ai_response ''ai'')"
  have g: "list_all (\<lambda>(mtype, c, conf). conf = 4 / 10 \<and> \<not> conf > 4 / 10) ?ai"
    using scaled_ai_confidence[of ai_response] unfolding list_all_iff by auto
  then have s: "list_all (\<lambda>(mtype, c, conf). \<not> conf > 4 / 10) ?ai"
    unfolding list_all_iff by auto
  have 1: "extract_and_store_memories md5 now db_now st user user_message ai_response conversation_id =
     store_loop md5 now db_now user conversation_id
       (analyze_text_for_memories user_message ''user'') 0 st"
    unfolding extract_and_store_memories_def memories_to_store_def store_loop_append
    using store_loop_skip[OF s] by (auto split: sum.splits)
  have 2: "extract_and_store_memories md5 now db_now st user user_message [] conversation_id =
     store_loop md5 now db_now user conversation_id
       (analyze_text_for_memories user_message ''user'') 0 st"
    unfolding extract_and_store_memories_def memories_to_store_def
    by (simp add: analyze_empty)
  show ?thesis using 1 2 g by simp
qed

section \<open>Properties of the chat handlers\<close>

text \<open>
  C4, as the code has it. When the generation call raises, both handlers return a
  normal response with their fixed reply and \<^verbatim>\<open>model_used = "fallback"\<close>.
  ai\_backend.py then goes on to its memory step: it stores the first 100 characters of
  the user's message when the message has more than three words, and nothing when it
  has not. fixed\_backend.py leaves the turn at the call: the user's entry of
  \<^verbatim>\<open>users_db\<close> exists, and \<^verbatim>\<open>memories_db\<close> is as it was. Neither stores a reply.
\<close>

theorem generation_failure_fallback:
  "response (fst (ai_backend_chat True failing_provider now stamp request um)) = ai_fallback_text
   \<and> model_used (fst (ai_backend_chat True failing_provider now stamp request um)) = ''fallback''
   \<and> snd (ai_backend_chat True failing_provider now stamp request um) =
       um(req_user_id request \<mapsto>
            (if length (py_split (message request)) > 3
             then (let appended = get_or (um (req_user_id request)) []
                                    @ [take 100 (message request) @ ''...'']
                   in if length appended > 20 then last_n 20 appended else appended)
             else get_or (um (req_user_id request)) []))
   \<and> response (fst (fixed_backend_chat failing_provider now stamp request st)) = fixed_fallback_text
   \<and> model_used (fst (fixed_backend_chat failing_provider now stamp request st)) = ''fallback''
   \<and> memories_db (snd (fixed_backend_chat failing_provider now stamp request st)) = memories_db st
   \<and> users_db (snd (fixed_backend_chat failing_provider now stamp request st)) =
       (if users_db st (req_user_id request) = None
        then (users_db st)(req_user_id request \<mapsto>
               \<lparr>ue_created_at = now, conversations = 0, last_active = now\<rparr>)
        else users_db st)"
proof -
  have ai: "snd (ai_backend_chat True failing_provider now stamp request um) =
       um(req_user_id request \<mapsto>
            (if length (py_split (message request)) > 3
             then (let appended = get_or (um (req_user_id request)) []
                                    @ [take 100 (message request) @ ''...'']
                   in if length appended > 20 then last_n 20 appended else appended)
             else get_or (um (req_user_id request)) []))"
    by (auto simp: ai_backend_chat_def failing_provider_def Let_def get_or_def fun_eq_iff
          split: prod.splits option.splits)
  have rest: "response (fst (ai_backend_chat True failing_provider now stamp request um)) = ai_fallback_text
     \<and> model_used (fst (ai_backend_chat True failing_provider now stamp request um)) = ''fallback''"
    by (simp add: ai_backend_chat_def failing_provider_def Let_def ai_fallback_text_def
          split: prod.splits)
  have fx: "response (fst (fixed_backend_chat failing_provider now stamp request st)) = fixed_fallback_text
   \<and> model_used (fst (fixed_backend_chat failing_provider now stamp request st)) = ''fallback''
   \<and> memories_db (snd (fixed_backend_chat failing_provider now stamp request st)) = memories_db st
   \<and> users_db (snd (fixed_backend_chat failing_provider now stamp request st)) =
       (if users_db st (req_user_id request) = None
        then (users_db st)(req_user_id request \<mapsto>
               \<lparr>ue_created_at = now, conversations = 0, last_active = now\<rparr>)
        else users_db st)"
    by (simp add: fixed_backend_chat_def failing_provider_def Let_def fixed_fallback_text_def
          split: prod.splits)
  from ai rest fx show ?thesis by simp
qed

text \<open>
  C4 as stated fails: with a failing provider, fixed\_backend.py stores nothing of a
  five-word message, and ai\_backend.py stores nothing of a three-word message.
\<close>

theorem generation_failure_counterexample:
  "model_used (fst (fixed_backend_chat failing_provider ''12:00'' ''1''
        \<lparr>req_user_id = ''u1'', message = ''I love hiking and photography'', session_id = None\<rparr>
        \<lparr>users_db = no_users, memories_db = no_messages\<rparr>)) = ''fallback''
   \<and> memories_db (snd (fixed_backend_chat failing_provider ''12:00'' ''1''
        \<lparr>req_user_id = ''u1'', message = ''I love hiking and photography'', session_id = None\<rparr>
        \<lparr>users_db = no_users, memories_db = no_messages\<rparr>)) ''u1'' = None
   \<and> model_used (fst (ai_backend_chat True failing_provider ''12:00'' ''1''
        \<lparr>req_user_id = ''u1'', message = ''I love hiking'', session_id = None\<rparr> no_memories))
       = ''fallback''
   \<and> snd (ai_backend_chat True failing_provider ''12:00'' ''1''
        \<lparr>req_user_id = ''u1'', message = ''I love hiking'', session_id = None\<rparr> no_memories) ''u1''
       = Some []"
  by (simp add: ai_backend_chat_def fixed_backend_chat_def failing_provider_def Let_def
        get_or_def no_users_def no_messages_def no_memories_def py_split_def is_space_def
        split: prod.splits)

section \<open>Properties of the persona adaptation\<close>

lemma persona_creation_raises:
  "table user = None \<Longrightarrow>
   update_persona_from_conversation now table user history
     = Inl (if table ''system_default'' = None then TypeError else AttributeError)"
  by (auto simp: update_persona_from_conversation_def get_persona_settings_def
        split: option.splits)

lemma persona_update_shape:
  assumes "table user = Some settings"
  shows "\<exists>s'. update_persona_from_conversation now table user history
               = Inr (s', table(user \<mapsto> s'))
            \<and> trust_level s' =
                (if int (length history) > 20 then min 100 (trust_level settings + 10)
                 else trust_level settings)
            \<and> set (topics_of_interest settings) \<subseteq> set (topics_of_interest s')"
proof -
  have g: "get_persona_settings table user = Inr settings"
    using assms by (simp add: get_persona_settings_def)
  show ?thesis
    unfolding update_persona_from_conversation_def g Let_def
    by (simp split del: if_split) (simp split: if_split)
qed

text \<open>
  C6, as the code has it. For every user with a row of persona settings and every
  history, the adaptation pass returns and stores settings whose trust level is the
  minimum of 100 and the trust level plus 10 when the history has more than 20
  messages, and the trust level as it was otherwise. So a trust level of at most
  100, the range of the column, is never lowered and stays at most 100. Every topic
  of interest of before is a topic of interest of after.
\<close>

theorem persona_trust_monotone:
  assumes "table user = Some settings"
  shows "(case update_persona_from_conversation now table user history of
            Inl e \<Rightarrow> False
          | Inr (settings', table') \<Rightarrow>
              trust_level settings' =
                (if length history > 20 then min 100 (trust_level settings + 10)
                 else trust_level settings)
              \<and> (trust_level settings \<le> 100 \<longrightarrow>
                    trust_level settings \<le> trust_level settings'
                    \<and> trust_level settings' \<le> 100)
              \<and> set (topics_of_interest settings) \<subseteq> set (topics_of_interest settings')
              \<and> table' user = Some settings')"
proof -
  from persona_update_shape[where table = table and user = user and settings = settings
         and now = now and history = history, OF assms]
  obtain s' where r: "update_persona_from_conversation now table user history
               = Inr (s', table(user \<mapsto> s'))"
    and t: "trust_level s' =
                (if int (length history) > 20 then min 100 (trust_level settings + 10)
                 else trust_level settings)"
    and tp: "set (topics_of_interest settings) \<subseteq> set (topics_of_interest s')"
    by blast
  have m: "trust_level settings \<le> 100 \<longrightarrow>
             trust_level settings \<le> trust_level s' \<and> trust_level s' \<le> 100"
    unfolding t by simp
  show ?thesis unfolding r using t tp m by simp
qed

theorem persona_trust_monotone_witness:
  "persona_table ''u1'' = Some casual_settings
   \<and> trust_level casual_settings = 50
   \<and> (case update_persona_from_conversation 7 persona_table ''u1'' music_history of
         Inl e \<Rightarrow> False
       | Inr (settings', table') \<Rightarrow>
           trust_level settings' = 60
           \<and> topics_of_interest settings' = [''general'', ''technology'', ''life'', ''art'', ''sports'']
           \<and> table' ''u1'' = Some settings')"
proof -
  have h: "persona_table ''u1'' = Some casual_settings" by code_simp
  have v: "(case update_persona_from_conversation 7 persona_table ''u1'' music_history of
         Inl e \<Rightarrow> False
       | Inr (settings', table') \<Rightarrow>
           trust_level settings' = 60
           \<and> topics_of_interest settings' = [''general'', ''technology'', ''life'', ''art'', ''sports'']
           \<and> table' ''u1'' = Some settings')"
    by code_simp
  have t: "trust_level casual_settings = 50" by code_simp
  from persona_trust_monotone[where table = persona_table and user = "''u1''"
         and settings = casual_settings and now = 7 and history = music_history, OF h]
  show ?thesis using h v t by simp
qed

text \<open>
  C6 as stated fails: a stored trust level of 150, which nothing in the code prevents,
  is lowered to 100 by a pass over a history of 21 messages.
\<close>

theorem persona_trust_counterexample:
  "(case persona_table ''u2'' of
      None \<Rightarrow> False
    | Some settings \<Rightarrow>
        trust_level settings = 150
        \<and> (case update_persona_from_conversation 7 persona_table ''u2'' music_history of
              Inl e \<Rightarrow> False
            | Inr (settings', table') \<Rightarrow> trust_level settings' = 100))"
  by code_simp

section \<open>Properties of the maintenance sweep\<close>

lemma filter_by_id:
  assumes "distinct (map mem_id rows)"
  shows "filter (\<lambda>m. mem_id m \<notin> set (map mem_id (filter Q rows))) rows = filter (\<lambda>m. \<not> Q m) rows"
proof (rule filter_cong[OF refl])
  fix m assume m: "m \<in> set rows"
  have inj: "inj_on mem_id (set rows)" using assms by (simp add: distinct_map)
  show "(mem_id m \<notin> set (map mem_id (filter Q rows))) = (\<not> Q m)"
  proof
    assume a: "mem_id m \<notin> set (map mem_id (filter Q rows))"
    show "\<not> Q m" using a m by auto
  next
    assume q: "\<not> Q m"
    show "mem_id m \<notin> set (map mem_id (filter Q rows))"
    proof
      assume "mem_id m \<in> set (map mem_id (filter Q rows))"
      then obtain x where x: "x \<in> set rows" "Q x" "mem_id x = mem_id m" by auto
      with inj m have "x = m" by (auto dest: inj_onD)
      with x q show False by simp
    qed
  qed
qed

lemma archive_id [simp]: "mem_id (archive c m) = mem_id m"
  by (simp add: archive_def)

lemma expired_archive:
  "expired_active now (archive c m) = (expired_active now m \<and> \<not> old_low_confidence c m)"
  by (auto simp: archive_def expired_active_def)

lemma cleanup_unfold:
  "cleanup_old_memories now st days_old =
     (let c = now - days days_old;
          E = filter (expired_active now)
                (if autoflush st then map (archive c) (memories st) else memories st)
      in (\<lparr>archived = length (filter (old_low_confidence c) (memories st)),
           deleted = length E\<rparr>,
          st\<lparr>memories := filter (\<lambda>m. mem_id m \<notin> set (map mem_id E))
                               (map (archive c) (memories st))\<rparr>))"
  unfolding cleanup_old_memories_def Let_def archive_def by simp

lemma expired_rows:
  "map mem_id (filter (expired_active now)
      (if flush then map (archive c) rows else rows))
   = map mem_id (filter (removed_by_sweep now c flush) rows)"
  by (induction rows) (auto simp: removed_by_sweep_def expired_archive)

lemma expired_rows_length:
  "length (filter (expired_active now) (if flush then map (archive c) rows else rows))
   = length (filter (removed_by_sweep now c flush) rows)"
  using arg_cong[OF expired_rows, of length now flush c rows] by simp

text \<open>
  What the sweep returns and leaves, for both flush modes of the session: the number
  of active rows whose confidence is below 0.3 and whose last update is older than
  the given number of days, the number of rows the second query finds, and the rows
  not removed, those old and of low confidence made inactive.
\<close>

lemma sweep_archives_and_deletes:
  assumes "distinct (map mem_id (memories st))"
  shows "fst (cleanup_old_memories now st days_old) =
           \<lparr>archived = length (filter (old_low_confidence (now - days days_old)) (memories st)),
            deleted = length (filter (removed_by_sweep now (now - days days_old) (autoflush st))
                                     (memories st))\<rparr>
         \<and> memories (snd (cleanup_old_memories now st days_old)) =
             map (archive (now - days days_old))
                 (filter (\<lambda>m. \<not> removed_by_sweep now (now - days days_old) (autoflush st) m)
                         (memories st))"
proof -
  let ?c = "now - days days_old"
  let ?Q = "removed_by_sweep now ?c (autoflush st)"
  let ?E = "filter (expired_active now)
              (if autoflush st then map (archive ?c) (memories st) else memories st)"
  have ids: "map mem_id ?E = map mem_id (filter ?Q (memories st))"
    by (rule expired_rows)
  have len: "length ?E = length (filter ?Q (memories st))"
    by (rule expired_rows_length)
  have "filter (\<lambda>m. mem_id m \<notin> set (map mem_id ?E)) (map (archive ?c) (memories st))
        = map (archive ?c) (filter (\<lambda>m. mem_id m \<notin> set (map mem_id (filter ?Q (memories st))))
                                  (memories st))"
    unfolding ids by (simp add: filter_map comp_def)
  also have "\<dots> = map (archive ?c) (filter (\<lambda>m. \<not> ?Q m) (memories st))"
    using filter_by_id[OF assms, of ?Q] by simp
  finally have rows: "filter (\<lambda>m. mem_id m \<notin> set (map mem_id ?E)) (map (archive ?c) (memories st))
        = map (archive ?c) (filter (\<lambda>m. \<not> ?Q m) (memories st))" .
  have "cleanup_old_memories now st days_old =
          (\<lparr>archived = length (filter (old_low_confidence ?c) (memories st)),
            deleted = length ?E\<rparr>,
           st\<lparr>memories := filter (\<lambda>m. mem_id m \<notin> set (map mem_id ?E))
                                (map (archive ?c) (memories st))\<rparr>)"
    unfolding cleanup_unfold Let_def ..
  then show ?thesis
    unfolding rows len by simp
qed

lemma sweep_archives_and_deletes_example:
  "distinct (map mem_id (memories (SessionLocal [tea_memory] 1 [])))
   \<and> fst (cleanup_old_memories (days 100) (SessionLocal [tea_memory] 1 []) 90) =
       \<lparr>archived = 1, deleted = 0\<rparr>
   \<and> memories (snd (cleanup_old_memories (days 100) (SessionLocal [tea_memory] 1 []) 90)) =
       [tea_memory\<lparr>is_active := False\<rparr>]"
proof -
  let ?st = "SessionLocal [tea_memory] 1 []"
  have h: "distinct (map mem_id (memories ?st))"
    by code_simp
  have r1: "\<lparr>archived = length (filter (old_low_confidence (days 100 - days 90)) (memories ?st)),
             deleted = length (filter (removed_by_sweep (days 100) (days 100 - days 90)
                                         (autoflush ?st)) (memories ?st))\<rparr>
            = \<lparr>archived = 1, deleted = 0\<rparr>"
    by code_simp
  have r2: "map (archive (days 100 - days 90))
              (filter (\<lambda>m. \<not> removed_by_sweep (days 100) (days 100 - days 90) (autoflush ?st) m)
                      (memories ?st))
            = [tea_memory\<lparr>is_active := False\<rparr>]"
    by code_simp
  from sweep_archives_and_deletes[OF h, of "days 100" 90] show ?thesis
    unfolding r1 r2 using h by simp
qed

text \<open>
  C8. The claim says that the sweep deactivates exactly the active records of
  confidence below 0.3 last updated before the cutoff, removes exactly the records
  that are still active and expired, and that an active memory of confidence 0.2 last
  updated 100 days ago becomes inactive under a sweep of 90 days. The code does not
  do that for the record below: an active \<^verbatim>\<open>emotion\<close> memory of confidence 0.2,
  stored 100 days before the sweep with a lifespan of 30 days, in a session of this
  repository (no autoflush). The first loop archives it and counts it; the second
  query, which asks for \<^verbatim>\<open>is_active == True\<close>, still finds it, because the loop's
  change is not flushed; the record is counted as deleted too and removed. The same
  call on the same table with an autoflushing session counts it once and leaves it
  inactive.
\<close>

theorem sweep_deletes_archived_record:
  "(case sad_memory_state of
      Inl e \<Rightarrow> False
    | Inr (m, st) \<Rightarrow>
        memories st = [m] \<and> is_active m \<and> confidence m = 2 / 10 \<and> updated_at m = 0
        \<and> expires_at m = Some (days 30)
        \<and> \<not> autoflush st
        \<and> cleanup_old_memories (days 100) st 90 =
            (\<lparr>archived = 1, deleted = 1\<rparr>, st\<lparr>memories := []\<rparr>)
        \<and> cleanup_old_memories (days 100) (st\<lparr>autoflush := True\<rparr>) 90 =
            (\<lparr>archived = 1, deleted = 0\<rparr>,
             st\<lparr>autoflush := True, memories := [m\<lparr>is_active := False\<rparr>]\<rparr>))"
  by code_simp

section \<open>Properties of the memory store\<close>

lemma find_append_rows:
  "find P (xs @ ys) = (case find P xs of None \<Rightarrow> find P ys | Some x \<Rightarrow> Some x)"
  by (induction xs) auto

lemma find_replace:
  assumes "distinct (map mem_id rows)" "find P rows = Some ex" "P merged"
  shows "find P (map (\<lambda>m. if mem_id m = mem_id ex then merged else m) rows) = Some merged"
  using assms
proof (induction rows)
  case Nil then show ?case by simp
next
  case (Cons m ms)
  show ?case
  proof (cases "P m")
    case True
    with Cons.prems have "ex = m" by simp
    with Cons.prems show ?thesis by simp
  next
    case False
    with Cons.prems have f: "find P ms = Some ex" by simp
    then have "ex \<in> set ms" by (auto simp: find_Some_iff)
    with Cons.prems have "mem_id m \<noteq> mem_id ex" by auto
    with False Cons.IH f Cons.prems show ?thesis by simp
  qed
qed

lemma replace_keeps:
  assumes "distinct (map mem_id rows)" "ex \<in> set rows" "f merged = f ex"
  shows "map f (map (\<lambda>m. if mem_id m = mem_id ex then merged else m) rows) = map f rows"
proof -
  have "\<And>m. m \<in> set rows \<Longrightarrow> mem_id m = mem_id ex \<Longrightarrow> m = ex"
    using assms(1,2) by (meson distinct_map inj_onD)
  then show ?thesis using assms(3) by (auto simp: comp_def)
qed

lemma filter_single:
  assumes "distinct (map memory_hash rows)" "m \<in> set rows" "P m"
    and "\<And>x. P x \<Longrightarrow> memory_hash x = memory_hash m"
  shows "filter P rows = [m]"
  using assms
proof (induction rows)
  case Nil then show ?case by simp
next
  case (Cons r rs)
  show ?case
  proof (cases "r = m")
    case True
    have "filter P rs = []"
    proof (rule ccontr)
      assume "filter P rs \<noteq> []"
      then obtain x where x: "x \<in> set rs" "P x" by (auto simp: filter_empty_conv)
      then have e: "memory_hash x = memory_hash r" using Cons.prems(4) True by simp
      have "memory_hash r \<notin> memory_hash ` set rs" using Cons.prems(1) by simp
      moreover have "memory_hash x \<in> memory_hash ` set rs" using x(1) by (rule imageI)
      ultimately show False using e by simp
    qed
    with True Cons.prems(3) show ?thesis by simp
  next
    case False
    with Cons.prems(2) have m: "m \<in> set rs" by simp
    have "\<not> P r"
    proof
      assume "P r"
      then have e: "memory_hash r = memory_hash m" using Cons.prems(4) by simp
      have "memory_hash r \<notin> memory_hash ` set rs" using Cons.prems(1) by simp
      moreover have "memory_hash m \<in> memory_hash ` set rs" using m by (rule imageI)
      ultimately show False using e by simp
    qed
    moreover have "filter P rs = [m]"
      using Cons.prems(1) by (intro Cons.IH m Cons.prems(3) Cons.prems(4)) simp_all
    ultimately show ?thesis by simp
  qed
qed

lemma store_memory_merge:
  assumes "find (same_memory md5 user c) (memories st) = Some ex"
  shows "store_memory md5 now db_now st user mtype c conf src cat imp =
           Inr (merge_existing now conf imp ex,
                st\<lparr>memories := map (\<lambda>m. if mem_id m = mem_id ex
                                           then merge_existing now conf imp ex else m)
                                     (memories st)\<rparr>)"
  using assms unfolding store_memory_def same_memory_def Let_def by simp

lemma store_memory_insert:
  assumes "find (same_memory md5 user c) (memories st) = None"
    and "store_memory md5 now db_now st user mtype c conf src cat imp = Inr (m, st')"
  shows "memories st' = memories st @ [m] \<and> next_id st' = Suc (next_id st)
         \<and> mem_id m = next_id st \<and> user_id m = user
         \<and> memory_hash m = calculate_memory_hash md5 user c
         \<and> confidence m = conf \<and> importance m = imp \<and> access_count m = 1 \<and> is_active m
         \<and> created_at m = db_now \<and> updated_at m = db_now
         \<and> expires_at m = Some (now + days (lifespan_of (category m)))
         \<and> \<not> list_ex (\<lambda>x. memory_hash x = calculate_memory_hash md5 user c) (memories st)"
  using assms unfolding store_memory_def same_memory_def Let_def new_memory_def
  by (auto split: if_splits)

lemma merge_fields [simp]:
  "mem_id (merge_existing now conf imp ex) = mem_id ex"
  "user_id (merge_existing now conf imp ex) = user_id ex"
  "memory_hash (merge_existing now conf imp ex) = memory_hash ex"
  "is_active (merge_existing now conf imp ex) = is_active ex"
  "expires_at (merge_existing now conf imp ex) = expires_at ex"
  "confidence (merge_existing now conf imp ex) = max (confidence ex) conf"
  "importance (merge_existing now conf imp ex) = max (importance ex) imp"
  "access_count (merge_existing now conf imp ex) =
     (if access_count ex \<noteq> 0 then access_count ex + 1 else 1)"
  by (simp_all add: merge_existing_def)

lemma store_memory_result:
  assumes ok: "table_ok st"
    and r: "store_memory md5 now db_now st user mtype c conf src cat imp = Inr (m, st')"
  shows "table_ok st' \<and> find (same_memory md5 user c) (memories st') = Some m
         \<and> filter (same_memory md5 user c) (memories st') = [m]
         \<and> (case find (same_memory md5 user c) (memories st) of
               Some ex \<Rightarrow> m = merge_existing now conf imp ex
                           \<and> length (memories st') = length (memories st)
             | None \<Rightarrow> memories st' = memories st @ [m])"
proof (cases "find (same_memory md5 user c) (memories st)")
  case None
  note ins = store_memory_insert[OF None r]
  have nohash: "\<forall>x \<in> set (memories st). memory_hash x \<noteq> calculate_memory_hash md5 user c"
    using ins by (auto simp: list_ex_iff)
  have ok': "table_ok st'"
    using ok ins nohash unfolding table_ok_def list_all_iff by (auto simp: less_Suc_eq)
  have sm: "same_memory md5 user c m" using ins by (simp add: same_memory_def)
  have f: "find (same_memory md5 user c) (memories st') = Some m"
    using None sm ins by (simp add: find_append_rows)
  have "filter (same_memory md5 user c) (memories st') = [m]"
    by (rule filter_single) (use ok' ins sm in \<open>auto simp: table_ok_def same_memory_def\<close>)
  with ok' f None ins show ?thesis by simp
next
  case (Some ex)
  let ?mg = "merge_existing now conf imp ex"
  from store_memory_merge[OF Some] r
  have m: "m = ?mg"
    and st': "st' = st\<lparr>memories := map (\<lambda>x. if mem_id x = mem_id ex then ?mg else x) (memories st)\<rparr>"
    by simp_all
  have exin: "ex \<in> set (memories st)" and pex: "same_memory md5 user c ex"
    using Some by (auto simp: find_Some_iff)
  have d: "distinct (map mem_id (memories st))" using ok by (simp add: table_ok_def)
  have pm: "same_memory md5 user c ?mg" using pex by (simp add: same_memory_def)
  have ids: "map mem_id (memories st') = map mem_id (memories st)"
    unfolding st' using replace_keeps[OF d exin, of mem_id ?mg] by simp
  have hs: "map memory_hash (memories st') = map memory_hash (memories st)"
    unfolding st' using replace_keeps[OF d exin, of memory_hash ?mg] by simp
  have nid: "next_id st' = next_id st" unfolding st' by simp
  have "list_all (\<lambda>x. mem_id x < next_id st') (memories st')"
  proof -
    have e: "mem_id ` set (memories st') = mem_id ` set (memories st)"
      using arg_cong[OF ids, of set] by simp
    have b: "\<forall>y \<in> set (memories st). mem_id y < next_id st"
      using ok unfolding table_ok_def list_all_iff by simp
    have "\<forall>x \<in> set (memories st'). mem_id x < next_id st"
    proof
      fix x assume "x \<in> set (memories st')"
      then have "mem_id x \<in> mem_id ` set (memories st')" by (rule imageI)
      then have "mem_id x \<in> mem_id ` set (memories st)" using e by simp
      then obtain y where "y \<in> set (memories st)" "mem_id x = mem_id y" by auto
      with b show "mem_id x < next_id st" by simp
    qed
    then show ?thesis using nid unfolding list_all_iff by simp
  qed
  then have ok': "table_ok st'" using ok ids hs unfolding table_ok_def by simp
  have f: "find (same_memory md5 user c) (memories st') = Some m"
    unfolding st' m using find_replace[OF d Some pm] by simp
  then have min: "m \<in> set (memories st')" by (auto simp: find_Some_iff)
  have "filter (same_memory md5 user c) (memories st') = [m]"
    by (rule filter_single) (use ok' min pm m in \<open>auto simp: table_ok_def same_memory_def\<close>)
  moreover have "length (memories st') = length (memories st)" unfolding st' by simp
  ultimately show ?thesis using ok' f Some m by simp
qed

lemma same_memory_normalized:
  "strip (lower c1) = strip (lower c2) \<Longrightarrow> same_memory md5 user c1 = same_memory md5 user c2"
  by (simp add: same_memory_def calculate_memory_hash_def fun_eq_iff)

text \<open>
  C1, as the code has it. A call to \<^verbatim>\<open>store_memory\<close> that follows a successful call
  for the same user with content of the same lowercased, stripped form inserts no
  row: it merges into the record the first call returned, which is then the one
  record of that user and hash, with confidence and importance the maximum of the
  record's and the call's, and the access count incremented. When the first call
  inserted the record, it is active, its access count is 2 and its confidence and
  importance are the maxima over the two calls. When the record was there before, it
  is as active as it was: the lookup does not look at \<^verbatim>\<open>is_active\<close>, and a merge
  does not change it.
\<close>

theorem store_memory_twice_merges:
  assumes ok: "table_ok st"
    and same: "strip (lower c1) = strip (lower c2)"
    and first: "store_memory md5 now1 db_now1 st user t1 c1 conf1 src1 cat1 imp1 = Inr (m1, st1)"
  shows "(case store_memory md5 now2 db_now2 st1 user t2 c2 conf2 src2 cat2 imp2 of
            Inl e \<Rightarrow> False
          | Inr (m2, st2) \<Rightarrow>
              mem_id m2 = mem_id m1
              \<and> length (memories st2) = length (memories st1)
              \<and> filter (same_memory md5 user c1) (memories st2) = [m2]
              \<and> confidence m2 = max (confidence m1) conf2
              \<and> importance m2 = max (importance m1) imp2
              \<and> access_count m2 = (if access_count m1 \<noteq> 0 then access_count m1 + 1 else 1)
              \<and> (case find (same_memory md5 user c1) (memories st) of
                    None \<Rightarrow> is_active m2 \<and> access_count m2 = 2
                              \<and> confidence m2 = max conf1 conf2
                              \<and> importance m2 = max imp1 imp2
                  | Some existing \<Rightarrow> is_active m2 = is_active existing))"
proof -
  let ?P = "same_memory md5 user c1"
  have P2: "same_memory md5 user c2 = ?P" using same_memory_normalized[OF same] by simp
  note r1 = store_memory_result[OF ok first]
  then have ok1: "table_ok st1" and f1: "find ?P (memories st1) = Some m1" by simp_all
  let ?m2 = "merge_existing now2 conf2 imp2 m1"
  obtain st2 where second:
    "store_memory md5 now2 db_now2 st1 user t2 c2 conf2 src2 cat2 imp2 = Inr (?m2, st2)"
    using store_memory_merge[of md5 user c2 st1 m1 now2 db_now2] f1 P2 by simp
  note r2 = store_memory_result[OF ok1 second]
  have len: "length (memories st2) = length (memories st1)"
    using r2 f1 P2 by simp
  have one: "filter ?P (memories st2) = [?m2]" using r2 P2 by simp
  have before: "(case find ?P (memories st) of
                   None \<Rightarrow> is_active ?m2 \<and> access_count ?m2 = 2
                             \<and> confidence ?m2 = max conf1 conf2
                             \<and> importance ?m2 = max imp1 imp2
                 | Some existing \<Rightarrow> is_active ?m2 = is_active existing)"
  proof (cases "find ?P (memories st)")
    case None
    from store_memory_insert[OF None first] show ?thesis using None by simp
  next
    case (Some ex)
    with r1 have "m1 = merge_existing now1 conf1 imp1 ex" by simp
    then show ?thesis using Some by simp
  qed
  show ?thesis
    unfolding second using len one before by simp
qed

theorem store_memory_twice_merges_witness:
  "table_ok (SessionLocal [] 0 [])
   \<and> strip (lower ''I love hiking and photography'')
       = strip (lower '' i LOVE hiking and photography '')
   \<and> store_memory id 0 0 (SessionLocal [] 0 []) ''u1'' ''preference''
        ''I love hiking and photography'' (9 / 10) None None (5 / 10)
       = Inr (hiking_memory, hiking_state)
   \<and> store_memory id 7 7 hiking_state ''u1'' ''preference''
        '' i LOVE hiking and photography '' (6 / 10) None None (7 / 10)
       = Inr (hiking_memory\<lparr>importance := 7 / 10, updated_at := 7, access_count := 2\<rparr>,
              hiking_state\<lparr>memories :=
                [hiking_memory\<lparr>importance := 7 / 10, updated_at := 7, access_count := 2\<rparr>]\<rparr>)"
proof -
  have h1: "table_ok (SessionLocal [] 0 [])" by code_simp
  have h2: "strip (lower ''I love hiking and photography'')
       = strip (lower '' i LOVE hiking and photography '')" by code_simp
  have h3: "store_memory id 0 0 (SessionLocal [] 0 []) ''u1'' ''preference''
        ''I love hiking and photography'' (9 / 10) None None (5 / 10)
       = Inr (hiking_memory, hiking_state)" by code_simp
  have v: "store_memory id 7 7 hiking_state ''u1'' ''preference''
        '' i LOVE hiking and photography '' (6 / 10) None None (7 / 10)
       = Inr (hiking_memory\<lparr>importance := 7 / 10, updated_at := 7, access_count := 2\<rparr>,
              hiking_state\<lparr>memories :=
                [hiking_memory\<lparr>importance := 7 / 10, updated_at := 7, access_count := 2\<rparr>]\<rparr>)"
    by code_simp
  from store_memory_twice_merges[OF h1 h2 h3, where ?now2.0 = 7 and ?conf2.0 = "6 / 10"]
  show ?thesis using h1 h2 h3 v by simp
qed

text \<open>
  C1 as stated fails: after the sweep has archived the user's memory, two calls with
  its content merge into the archived record, and the user has no active record for
  that content.
\<close>

theorem store_memory_inactive_counterexample:
  "(case store_memory id (days 101) (days 101) archived_tea_state ''u1'' ''preference'' ''I like tea''
           (9 / 10) None None (5 / 10) of
      Inl e \<Rightarrow> False
    | Inr (m1, st1) \<Rightarrow>
        (case store_memory id (days 102) (days 102) st1 ''u1'' ''preference'' ''i like TEA ''
                (9 / 10) None None (5 / 10) of
           Inl e \<Rightarrow> False
         | Inr (m2, st2) \<Rightarrow>
             memories st2 = [m2] \<and> access_count m2 = 3 \<and> confidence m2 = 9 / 10
             \<and> \<not> is_active m2))"
  by code_simp

lemma expired_not_eligible:
  "expires_at m = Some e \<Longrightarrow> e \<le> now \<Longrightarrow> m \<notin> set (base_query rows user min_confidence now)"
  by (auto simp: base_query_def)

lemma lifespan_unknown:
  "cat \<notin> set (map fst memory_categories) \<Longrightarrow> lifespan_of cat = 30"
  by (simp add: lifespan_of_def map_of_eq_None_iff[THEN iffD2])

text \<open>
  C3, as the code has it. A record that \<^verbatim>\<open>store_memory\<close> creates (when the lookup
  finds none to merge into) expires at the reading of \<^verbatim>\<open>datetime.utcnow()\<close> in the
  call plus the lifespan of its category in days: 365 for preference, 730 for fact,
  180 for experience, 90 for goal, 30 for emotion, and 30 for a category that is not
  in the table. Its creation time is not written by the call: it is the database's
  own reading at the insert, so the expiry is the creation time plus the lifespan
  exactly when the two readings are the same. From the expiry on, the eligibility
  filter of \<^verbatim>\<open>get_relevant_memories\<close> (active, unexpired or without expiry,
  confidence at or above the threshold) does not let the record through, whatever the
  table, the reader and the threshold.
\<close>

theorem expiry_from_category_lifespan:
  assumes fresh: "find (same_memory md5 user c) (memories st) = None"
    and ins: "store_memory md5 now db_now st user mtype c conf src cat imp = Inr (m, st')"
  shows "expires_at m = Some (now + days (lifespan_of (category m)))
         \<and> created_at m = db_now
         \<and> (expires_at m = Some (created_at m + days (lifespan_of (category m))))
             = (db_now = now)
         \<and> lifespan_of ''preference'' = 365 \<and> lifespan_of ''fact'' = 730
         \<and> lifespan_of ''experience'' = 180 \<and> lifespan_of ''goal'' = 90
         \<and> lifespan_of ''emotion'' = 30
         \<and> (other \<notin> set (map fst memory_categories) \<longrightarrow> lifespan_of other = 30)
         \<and> (now + days (lifespan_of (category m)) \<le> later
              \<longrightarrow> m \<notin> set (base_query rows reader min_confidence later))"
proof -
  note i = store_memory_insert[OF fresh ins]
  have e: "expires_at m = Some (now + days (lifespan_of (category m)))"
    and c: "created_at m = db_now"
    using i by simp_all
  have q: "(expires_at m = Some (created_at m + days (lifespan_of (category m))))
             = (db_now = now)"
    unfolding e c by auto
  have t: "lifespan_of ''preference'' = 365 \<and> lifespan_of ''fact'' = 730
         \<and> lifespan_of ''experience'' = 180 \<and> lifespan_of ''goal'' = 90
         \<and> lifespan_of ''emotion'' = 30"
    by (simp add: lifespan_of_def memory_categories_def)
  have x: "now + days (lifespan_of (category m)) \<le> later
              \<longrightarrow> m \<notin> set (base_query rows reader min_confidence later)"
    using expired_not_eligible[OF e, of later] by simp
  have u: "other \<notin> set (map fst memory_categories) \<longrightarrow> lifespan_of other = 30"
    using lifespan_unknown[of other] by simp
  show ?thesis using e c q t x u by simp
qed

theorem expiry_from_category_lifespan_witness:
  "find (same_memory id ''u1'' ''I feel sad'') (memories (SessionLocal [] 0 [])) = None
   \<and> store_memory id 0 2 (SessionLocal [] 0 []) ''u1'' ''emotion'' ''I feel sad'' (2 / 10)
        None None (5 / 10)
       = Inr (sad_memory, sad_state)
   \<and> expires_at sad_memory = Some (0 + days 30)
   \<and> created_at sad_memory = 2
   \<and> ''general'' \<notin> set (map fst memory_categories) \<and> lifespan_of ''general'' = 30
   \<and> 0 + days (lifespan_of (category sad_memory)) \<le> days 30
   \<and> base_query [sad_memory] ''u1'' (1 / 10) (days 29) = [sad_memory]
   \<and> sad_memory \<notin> set (base_query [sad_memory] ''u1'' (1 / 10) (days 30))"
proof -
  have h1: "find (same_memory id ''u1'' ''I feel sad'') (memories (SessionLocal [] 0 [])) = None"
    by code_simp
  have h2: "store_memory id 0 2 (SessionLocal [] 0 []) ''u1'' ''emotion'' ''I feel sad'' (2 / 10)
        None None (5 / 10)
       = Inr (sad_memory, sad_state)"
    by code_simp
  have h3: "''general'' \<notin> set (map fst memory_categories)" by code_simp
  have h4: "0 + days (lifespan_of (category sad_memory)) \<le> days 30"
    by code_simp
  have h5: "base_query [sad_memory] ''u1'' (1 / 10) (days 29) = [sad_memory]" by code_simp
  have h6: "lifespan_of (category sad_memory) = 30" by code_simp
  from expiry_from_category_lifespan[OF h1 h2, where other = "''general''" and later = "days 30"
         and rows = "[sad_memory]" and reader = "''u1''" and min_confidence = "1 / 10"]
  show ?thesis using h1 h2 h3 h4 h5 h6 by simp
qed

text \<open>
  C3 as stated fails: a call that reads its clock at 0 and whose row the database
  inserts at 2 creates a record of lifespan 30 days that expires at 30 days, not at
  its creation time plus 30 days.
\<close>

theorem expiry_creation_time_counterexample:
  "store_memory id 0 2 (SessionLocal [] 0 []) ''u1'' ''emotion'' ''I feel sad'' (2 / 10)
     None None (5 / 10)
    = Inr (sad_memory, sad_state)
   \<and> lifespan_of (category sad_memory) = 30
   \<and> created_at sad_memory = 2
   \<and> expires_at sad_memory = Some (days 30)
   \<and> expires_at sad_memory \<noteq> Some (created_at sad_memory + days 30)"
  by code_simp

section \<open>Properties of the retrieval\<close>

lemma touch_map:
  "distinct (map mem_id rows) \<Longrightarrow>
   touch now i rows = map (\<lambda>r. if mem_id r = i then touched now r else r) rows"
proof (induction rows)
  case Nil then show ?case by simp
next
  case (Cons m ms)
  show ?case
  proof (cases "mem_id m = i")
    case True
    have "\<forall>r \<in> set ms. mem_id r \<noteq> i" using Cons.prems True by (force simp: image_iff)
    then have "map (\<lambda>r. if mem_id r = i then touched now r else r) ms = ms"
      by (induction ms) auto
    with True show ?thesis by (simp add: touched_def)
  next
    case False
    with Cons show ?thesis by simp
  qed
qed

lemma touched_id [simp]: "mem_id (touched now r) = mem_id r"
  by (simp add: touched_def)

lemma fold_touch:
  "distinct (map mem_id rows) \<Longrightarrow> distinct ids \<Longrightarrow>
   fold (touch now) ids rows = map (\<lambda>r. if mem_id r \<in> set ids then touched now r else r) rows"
proof (induction ids arbitrary: rows)
  case Nil then show ?case by simp
next
  case (Cons i ids)
  let ?g = "\<lambda>r. if mem_id r = i then touched now r else r"
  have t: "touch now i rows = map ?g rows" using Cons.prems(1) by (rule touch_map)
  have d: "distinct (map mem_id (map ?g rows))"
  proof -
    have e: "map mem_id (map ?g rows) = map mem_id rows"
      unfolding map_map by (rule map_cong) auto
    show ?thesis unfolding e by (rule Cons.prems(1))
  qed
  have "fold (touch now) (i # ids) rows = fold (touch now) ids (map ?g rows)"
    using t by simp
  also have "\<dots> = map (\<lambda>r. if mem_id r \<in> set ids then touched now r else r) (map ?g rows)"
    using Cons.IH[OF d] Cons.prems(2) by simp
  also have "\<dots> = map (\<lambda>r. if mem_id r \<in> set (i # ids) then touched now r else r) rows"
    using Cons.prems(2) by (induction rows) auto
  finally show ?case .
qed

lemma update_access_counts_map:
  assumes "distinct (map mem_id rows)" "distinct (map d_id dicts)"
  shows "update_access_counts now dicts rows =
           map (\<lambda>r. if mem_id r \<in> d_id ` set dicts then touched now r else r) rows"
proof -
  have "update_access_counts now dicts rows = fold (touch now) (map d_id dicts) rows"
    unfolding update_access_counts_def by (simp add: fold_map comp_def)
  then show ?thesis using fold_touch[OF assms] by simp
qed

lemma picked_take_sort:
  assumes "set xs \<subseteq> set rows"
    and "distinct (map mem_id rows) \<Longrightarrow> distinct (map mem_id xs)"
  shows "picked limit rows (take limit (sort_key k xs))"
proof -
  have s: "set (take limit (sort_key k xs)) \<subseteq> set rows"
    using assms(1) set_take_subset[of limit "sort_key k xs"] by auto
  have "distinct (map mem_id (take limit (sort_key k xs)))" if "distinct (map mem_id rows)"
  proof -
    have dx: "distinct (map mem_id xs)" using assms(2) that by simp
    then have "distinct xs" and inj: "inj_on mem_id (set xs)" by (simp_all add: distinct_map)
    then have "distinct (map mem_id (sort_key k xs))" by (simp add: distinct_map)
    then show ?thesis by (simp add: take_map[symmetric] del: take_map)
  qed
  with s show ?thesis by (simp add: picked_def)
qed

lemma picked_filter:
  "picked limit rows (take limit (sort_key k (filter P rows)))"
  by (rule picked_take_sort) (auto simp: distinct_map_filter)

lemma picked_filter2:
  "picked limit rows (take limit (sort_key k (filter Q (filter P rows))))"
  by (rule picked_take_sort) (auto simp: distinct_map_filter)

lemma select_memories_picked:
  "\<exists>rs. picked limit rows rs
        \<and> map d_id (select_memories now em vs ilike rows user query limit minc) = map mem_id rs"
proof -
  let ?base = "base_query rows user minc now"
  let ?pat = "''%'' @ (case query of Some q \<Rightarrow> q | None \<Rightarrow> []) @ ''%''"
  let ?kw = "take limit (keyword_order
               (filter (\<lambda>m. ilike ?pat (content m) \<or> ilike ?pat (category m)
                             \<or> ilike ?pat (memory_type m)) ?base))"
  have md: "\<And>rs. map d_id (map memory_to_dict rs) = map mem_id rs"
    by (simp add: memory_to_dict_def comp_def)
  have sd: "\<And>rs dist. map d_id (map (semantic_dict dist) rs) = map mem_id rs"
    by (simp add: semantic_dict_def comp_def)
  have p_simple: "picked limit rows (take limit (simple_order ?base))"
    unfolding simple_order_def base_query_def by (rule picked_filter)
  have p_recent: "picked limit rows (take limit (recency_order ?base))"
    unfolding recency_order_def base_query_def by (rule picked_filter)
  have p_kw: "picked limit rows ?kw"
    unfolding keyword_order_def base_query_def by (rule picked_filter2)
  have p_sem: "\<And>dist. picked limit rows
      (take limit (sort_key dist
         (filter (\<lambda>m. user_id m = user \<and> is_active m \<and> confidence m \<ge> minc) rows)))"
    by (rule picked_filter)
  show ?thesis
  proof (cases "\<not> no_query query \<and> em")
    case False
    then have "select_memories now em vs ilike rows user query limit minc =
                 map memory_to_dict (take limit (recency_order ?base))"
      unfolding select_memories_def Let_def by auto
    with p_recent md show ?thesis
      by (intro exI[of _ "take limit (recency_order ?base)"]) simp
  next
    case True
    show ?thesis
    proof (cases vs)
      case SearchError
      with True have "select_memories now em vs ilike rows user query limit minc =
                 map memory_to_dict (take limit (simple_order ?base))"
        unfolding select_memories_def Let_def by simp
      with p_simple md show ?thesis
        by (intro exI[of _ "take limit (simple_order ?base)"]) simp
    next
      case NoVector
      with True have "select_memories now em vs ilike rows user query limit minc =
                 map memory_to_dict ?kw"
        unfolding select_memories_def Let_def by simp
      with p_kw md show ?thesis by (intro exI[of _ ?kw]) simp
    next
      case (Distances dist)
      let ?found = "semantic_rows dist rows user minc limit"
      from Distances True
      have e: "select_memories now em vs ilike rows user query limit minc =
                 (if ?found = [] then map memory_to_dict ?kw else ?found)"
        unfolding select_memories_def Let_def by simp
      show ?thesis
      proof (cases "?found = []")
        case True
        with e p_kw md show ?thesis by (intro exI[of _ ?kw]) simp
      next
        case False
        with e have "select_memories now em vs ilike rows user query limit minc = ?found" by simp
        then show ?thesis unfolding semantic_rows_def using p_sem[of dist] sd
          by (intro exI[of _ "take limit (sort_key dist
                (filter (\<lambda>m. user_id m = user \<and> is_active m \<and> confidence m \<ge> minc) rows))"])
             simp
      qed
    qed
  qed
qed


lemma get_relevant_memories_hit:
  "no_query query \<Longrightarrow> cache_recent user (memory_cache st) = Some cached \<Longrightarrow>
   get_relevant_memories now em vs ilike st user query limit minc = (cached, st)"
  by (simp add: get_relevant_memories_def)

lemma get_relevant_memories_miss:
  assumes "(if no_query query then cache_recent user (memory_cache st) else None) = None"
  shows "fst (get_relevant_memories now em vs ilike st user query limit minc) =
           select_memories now em vs ilike (memories st) user query limit minc
         \<and> memories (snd (get_relevant_memories now em vs ilike st user query limit minc)) =
             update_access_counts now
               (select_memories now em vs ilike (memories st) user query limit minc)
               (memories st)"
  using assms by (simp add: get_relevant_memories_def Let_def)

text \<open>
  C7, as the code has it. A call without a query for a user whose list is in the
  cache returns the cached list as it is and changes nothing: the list is as long as
  the call that cached it made it, and no access count or last access is written. On
  every other call, whatever the selection (semantic, keyword fallback, the fallback
  after an exception, the ranking without a query), the dictionaries returned are at
  most \<open>limit\<close>, they are of different rows of the table, and the rows of the table
  afterwards are the rows of before with the access count incremented and the last
  access set to the time of the call on exactly the rows returned.
\<close>

theorem retrieval_cap_and_touch:
  assumes ok: "table_ok st"
  shows "(case (if no_query query then cache_recent user (memory_cache st) else None) of
            Some cached \<Rightarrow>
              get_relevant_memories now em vs ilike st user query limit minc = (cached, st)
          | None \<Rightarrow>
              length (fst (get_relevant_memories now em vs ilike st user query limit minc)) \<le> limit
              \<and> distinct (map d_id
                    (fst (get_relevant_memories now em vs ilike st user query limit minc)))
              \<and> d_id ` set (fst (get_relevant_memories now em vs ilike st user query limit minc))
                  \<subseteq> mem_id ` set (memories st)
              \<and> memories (snd (get_relevant_memories now em vs ilike st user query limit minc)) =
                  map (\<lambda>r. if mem_id r \<in> d_id ` set (fst (get_relevant_memories now em vs ilike
                                                              st user query limit minc))
                            then touched now r else r)
                      (memories st))"
proof (cases "if no_query query then cache_recent user (memory_cache st) else None")
  case (Some cached)
  then have "no_query query" and "cache_recent user (memory_cache st) = Some cached"
    by (auto split: if_splits)
  then show ?thesis using Some by (simp add: get_relevant_memories_hit)
next
  case None
  let ?found = "select_memories now em vs ilike (memories st) user query limit minc"
  note miss = get_relevant_memories_miss[OF None, of now em vs ilike limit minc]
  have d: "distinct (map mem_id (memories st))" using ok by (simp add: table_ok_def)
  obtain rs where p: "picked limit (memories st) rs" and ids: "map d_id ?found = map mem_id rs"
    using select_memories_picked[of limit "memories st" now em vs ilike user query minc] by blast
  have len: "length ?found \<le> limit"
    using p arg_cong[OF ids, of length] by (simp add: picked_def)
  have dis: "distinct (map d_id ?found)"
    using p d ids by (simp add: picked_def)
  have sub: "d_id ` set ?found \<subseteq> mem_id ` set (memories st)"
  proof -
    have "d_id ` set ?found = mem_id ` set rs" using arg_cong[OF ids, of set] by simp
    moreover have "set rs \<subseteq> set (memories st)" using p by (simp add: picked_def)
    ultimately show ?thesis by auto
  qed
  have upd: "update_access_counts now ?found (memories st) =
               map (\<lambda>r. if mem_id r \<in> d_id ` set ?found then touched now r else r) (memories st)"
    by (rule update_access_counts_map[OF d dis])
  show ?thesis using None miss len dis sub upd by simp
qed

theorem retrieval_cap_and_touch_witness:
  "table_ok two_memories_state
   \<and> get_relevant_memories 10 False NoVector ilike_substring two_memories_state ''u1'' None 1
        (3 / 10)
       = ([memory_to_dict hiking_memory],
          two_memories_state
            \<lparr>memories := [touched 10 hiking_memory, tea_memory2],
             memory_cache := [Recent ''u1'' [memory_to_dict hiking_memory]]\<rparr>)"
proof -
  have h: "table_ok two_memories_state" by code_simp
  have v: "get_relevant_memories 10 False NoVector ilike_substring two_memories_state ''u1'' None 1
        (3 / 10)
       = ([memory_to_dict hiking_memory],
          two_memories_state
            \<lparr>memories := [touched 10 hiking_memory, tea_memory2],
             memory_cache := [Recent ''u1'' [memory_to_dict hiking_memory]]\<rparr>)"
    by code_simp
  from retrieval_cap_and_touch[OF h, where now = 10 and limit = 1]
  show ?thesis using h v by simp
qed

text \<open>
  C7 as stated fails on the cache-served path: after a call without a query and with
  limit 5 has returned two memories, a call with limit 1 returns the same two, and
  the state, access counts included, is as the first call left it.
\<close>

theorem retrieval_cache_counterexample:
  "(case get_relevant_memories 10 False NoVector ilike_substring two_memories_state ''u1'' None 5
           (3 / 10) of
      (found1, st1) \<Rightarrow>
        length found1 = 2
        \<and> (case get_relevant_memories 20 False NoVector ilike_substring st1 ''u1'' None 1
                   (3 / 10) of
             (found2, st2) \<Rightarrow> length found2 = 2 \<and> found2 = found1 \<and> st2 = st1))"
  by code_simp

section \<open>Properties of the prompt composer\<close>

lemma split_on_sep:
  "split_on sep cur (a @ sep # b) = split_on sep cur a @ split_on sep [] b"
  by (induction a arbitrary: cur) auto

lemma compress_lines_append:
  "compress_lines b (xs @ ys) =
     compress_lines b xs @ compress_lines (b \<or> list_ex (str_in memory_header) xs) ys"
  by (induction xs arbitrary: b) auto

lemma compress_started_bullet:
  "l \<in> set (compress_lines True ls) \<Longrightarrow> startswith (strip l) ''-'' \<Longrightarrow>
   \<not> str_in memory_header l \<Longrightarrow>
   str_in ''(confidence: 0.8'' l \<or> str_in ''(confidence: 0.9'' l"
  by (induction ls) (auto split: if_splits)

lemma split_ws_pending:
  "cur1 \<noteq> [] \<Longrightarrow> cur2 \<noteq> [] \<Longrightarrow> length (split_ws cur1 zs) = length (split_ws cur2 zs)"
proof (induction zs arbitrary: cur1 cur2)
  case Nil
  then show ?case by simp
next
  case (Cons c cs)
  show ?case
  proof (cases "is_space c")
    case True
    with Cons.prems show ?thesis by simp
  next
    case False
    have "length (split_ws (cur1 @ [c]) cs) = length (split_ws (cur2 @ [c]) cs)"
      by (rule Cons.IH) simp_all
    with False show ?thesis by simp
  qed
qed

lemma split_ws_mono:
  "length (split_ws [] zs) \<le> length (split_ws cur zs)"
proof (induction zs arbitrary: cur)
  case Nil then show ?case by simp
next
  case (Cons c cs)
  show ?case
  proof (cases "is_space c")
    case True then show ?thesis by simp
  next
    case False
    have "length (split_ws [c] cs) = length (split_ws (cur @ [c]) cs)"
      by (rule split_ws_pending) simp_all
    with False show ?thesis by simp
  qed
qed

lemma split_ws_suffix:
  "length (split_ws [] zs) \<le> length (split_ws cur (xs @ zs))"
proof (induction xs arbitrary: cur)
  case Nil show ?case using split_ws_mono by simp
next
  case (Cons x xs)
  show ?case using Cons.IH[of "[]"] Cons.IH[of "cur @ [x]"] by auto
qed

lemma split_ws_replicate:
  "n \<le> length (split_ws [] (concat (replicate n ''a '') @ ys))"
proof (induction n)
  case 0 show ?case by simp
next
  case (Suc n)
  have "split_ws [] (concat (replicate (Suc n) ''a '') @ ys)
          = ''a'' # split_ws [] (concat (replicate n ''a '') @ ys)"
    by (simp add: is_space_def)
  with Suc show ?case by simp
qed

lemma head_newline:
  "persona_section default_persona @ memory_section [tea_dict] = prompt_head @ [CHR 0x0A]"
  by code_simp

lemma head_facts:
  "''- likes tea'' \<in> set (split_on CHR 0x0A [] prompt_head)
   \<and> ''- likes tea'' \<notin> set (compress_lines False (split_on CHR 0x0A [] prompt_head))
   \<and> ''- Time of day: 10:00 AM'' \<notin> set (compress_lines False (split_on CHR 0x0A [] prompt_head))
   \<and> list_ex (str_in memory_header) (split_on CHR 0x0A [] prompt_head)"
  by code_simp

lemma bullet_facts:
  "startswith (strip ''- likes tea'') ''-'' \<and> \<not> str_in memory_header ''- likes tea''
   \<and> \<not> str_in ''(confidence: 0.8'' ''- likes tea'' \<and> \<not> str_in ''(confidence: 0.9'' ''- likes tea''
   \<and> startswith (strip ''- Time of day: 10:00 AM'') ''-''
   \<and> \<not> str_in memory_header ''- Time of day: 10:00 AM''
   \<and> \<not> str_in ''(confidence: 0.8'' ''- Time of day: 10:00 AM''
   \<and> \<not> str_in ''(confidence: 0.9'' ''- Time of day: 10:00 AM''"
  by code_simp


lemma full_prompt_parts:
  "full_prompt T msg [tea_dict] default_persona None =
     prompt_head @ CHR 0x0A
       # (''\<newline>CURRENT SITUATION:\<newline>- User emotion: '' @ detect_context msg) @ CHR 0x0A
       # (''- Time of day: '' @ T) @ CHR 0x0A
       # (''- Conversation mood: neutral\<newline>\<newline>CURRENT MESSAGE FROM USER:\<newline>'' @ dq @ msg @ dq
          @ ''\<newline>\<newline>YOUR RESPONSE (as Alex):\<newline>        '')"
proof -
  have "full_prompt T msg [tea_dict] default_persona None =
          (persona_section default_persona @ memory_section [tea_dict])
          @ context_section T msg default_persona None"
    by (simp add: full_prompt_def history_section_def)
  then show ?thesis
    unfolding head_newline
    by (simp add: context_section_def default_persona_def get_or_def)
qed

lemma full_prompt_lines:
  "split_on CHR 0x0A [] (full_prompt T msg [tea_dict] default_persona None) =
     split_on CHR 0x0A [] prompt_head
     @ split_on CHR 0x0A [] (''\<newline>CURRENT SITUATION:\<newline>- User emotion: '' @ detect_context msg)
     @ split_on CHR 0x0A [] (''- Time of day: '' @ T)
     @ split_on CHR 0x0A []
         (''- Conversation mood: neutral\<newline>\<newline>CURRENT MESSAGE FROM USER:\<newline>'' @ dq @ msg @ dq
          @ ''\<newline>\<newline>YOUR RESPONSE (as Alex):\<newline>        '')"
  unfolding full_prompt_parts split_on_sep ..

lemma full_prompt_words:
  "3001 \<le> length (py_split (full_prompt T long_message [tea_dict] default_persona None))"
proof -
  let ?X = "prompt_head @ CHR 0x0A
       # (''\<newline>CURRENT SITUATION:\<newline>- User emotion: '' @ detect_context long_message) @ CHR 0x0A
       # (''- Time of day: '' @ T) @ CHR 0x0A
       # (''- Conversation mood: neutral\<newline>\<newline>CURRENT MESSAGE FROM USER:\<newline>'' @ dq)"
  let ?Y = "dq @ ''\<newline>\<newline>YOUR RESPONSE (as Alex):\<newline>        ''"
  have "full_prompt T long_message [tea_dict] default_persona None = ?X @ (long_message @ ?Y)"
    unfolding full_prompt_parts by simp
  then have "py_split (full_prompt T long_message [tea_dict] default_persona None)
               = split_ws [] (?X @ (long_message @ ?Y))"
    by (simp only: py_split_def)
  moreover have "length (split_ws [] (long_message @ ?Y)) \<le> length (split_ws [] (?X @ (long_message @ ?Y)))"
    by (rule split_ws_suffix)
  moreover have "3001 \<le> length (split_ws [] (long_message @ ?Y))"
    unfolding long_message_def by (rule split_ws_replicate)
  ultimately show ?thesis by simp
qed

lemma dropped_after_header:
  assumes "startswith (strip l) ''-''" "\<not> str_in memory_header l"
    "\<not> str_in ''(confidence: 0.8'' l" "\<not> str_in ''(confidence: 0.9'' l"
    "l \<notin> set (compress_lines False (split_on CHR 0x0A [] prompt_head))"
  shows "l \<notin> set (compress_lines False
                    (split_on CHR 0x0A [] (full_prompt T msg [tea_dict] default_persona None)))"
proof -
  let ?rest = "split_on CHR 0x0A [] (''\<newline>CURRENT SITUATION:\<newline>- User emotion: '' @ detect_context msg)
     @ split_on CHR 0x0A [] (''- Time of day: '' @ T)
     @ split_on CHR 0x0A []
         (''- Conversation mood: neutral\<newline>\<newline>CURRENT MESSAGE FROM USER:\<newline>'' @ dq @ msg @ dq
          @ ''\<newline>\<newline>YOUR RESPONSE (as Alex):\<newline>        '')"
  have hdr: "list_ex (str_in memory_header) (split_on CHR 0x0A [] prompt_head)"
    using head_facts by simp
  have c: "compress_lines False (split_on CHR 0x0A [] (full_prompt T msg [tea_dict] default_persona None))
         = compress_lines False (split_on CHR 0x0A [] prompt_head) @ compress_lines True ?rest"
    unfolding full_prompt_lines compress_lines_append using hdr by simp
  have "l \<notin> set (compress_lines True ?rest)"
    using compress_started_bullet[of l ?rest] assms(1-4) by blast
  with assms(5) show ?thesis unfolding c by simp
qed

lemma split_on_nosep: "sep \<notin> set s \<Longrightarrow> split_on sep cur s = [cur @ s]"
  by (induction s arbitrary: cur) auto

lemma split_on_join:
  "xs \<noteq> [] \<Longrightarrow> (\<And>x. x \<in> set xs \<Longrightarrow> sep \<notin> set x) \<Longrightarrow> split_on sep [] (join [sep] xs) = xs"
proof (induction "[sep]" xs rule: join.induct)
  case 1
  then show ?case by simp
next
  case (2 x)
  then show ?case by (simp add: split_on_nosep)
next
  case (3 x y ys)
  have "split_on sep [] (join [sep] (y # ys)) = y # ys"
    using 3 by simp
  moreover have "split_on sep [] x = [x]"
    using 3(3)[of x] by (simp add: split_on_nosep)
  ultimately show ?case
    using split_on_sep[of sep "[]" x "join [sep] (y # ys)"] by simp
qed

lemma split_on_pieces:
  "sep \<notin> set cur \<Longrightarrow> x \<in> set (split_on sep cur s) \<Longrightarrow> sep \<notin> set x"
proof (induction s arbitrary: cur)
  case Nil
  then show ?case by auto
next
  case (Cons c cs)
  show ?case
  proof (cases "c = sep")
    case True
    with Cons.prems have "x = cur \<or> x \<in> set (split_on sep [] cs)" by simp
    then show ?thesis
      using Cons.prems(1) Cons.IH[of "[]"] by auto
  next
    case False
    with Cons.prems have "x \<in> set (split_on sep (cur @ [c]) cs)" by simp
    moreover have "sep \<notin> set (cur @ [c])" using False Cons.prems(1) by auto
    ultimately show ?thesis by (rule Cons.IH[rotated])
  qed
qed

lemma compress_lines_subset: "x \<in> set (compress_lines b xs) \<Longrightarrow> x \<in> set xs"
  by (induction xs arbitrary: b) (auto split: if_splits)

lemma compress_lines_header:
  "list_ex (str_in memory_header) xs \<Longrightarrow> compress_lines b xs \<noteq> []"
  by (induction xs arbitrary: b) auto

lemma compress_prompt_lines:
  assumes "list_ex (str_in memory_header) (split_on CHR 0x0A [] p)"
  shows "split_on CHR 0x0A [] (compress_prompt p) = compress_lines False (split_on CHR 0x0A [] p)"
proof -
  have "compress_lines False (split_on CHR 0x0A [] p) \<noteq> []"
    using assms by (rule compress_lines_header)
  moreover have "CHR 0x0A \<notin> set x" if "x \<in> set (compress_lines False (split_on CHR 0x0A [] p))" for x
    using that split_on_pieces[of "CHR 0x0A" "[]" x p] compress_lines_subset by fastforce
  ultimately show ?thesis
    unfolding compress_prompt_def by (simp add: split_on_join)
qed

text \<open>
  C9. The claim: a prompt of more than 3000 words is compressed, and the compression
  keeps the headers, every line that is not a memory line, and the bullet of a memory
  of confidence 0.8 or 0.9. The code: \<^verbatim>\<open>build_prompt\<close> writes a memory as
  \<^verbatim>\<open>- {content}\<close>, without its confidence, and \<^verbatim>\<open>_compress_prompt\<close> keeps a line that
  starts with a dash after the memory header only when it contains
  \<^verbatim>\<open>(confidence: 0.8\<close> or \<^verbatim>\<open>(confidence: 0.9\<close>. For one memory of confidence 0.9 and a
  message of 3001 words the prompt is compressed, and the returned prompt has lost
  the memory's bullet and a line of the situation block, both lines of the prompt
  before compression.
\<close>

theorem compression_drops_high_confidence_bullet:
  "d_confidence tea_dict = 9 / 10
   \<and> 3000 < length (py_split (full_prompt ''10:00 AM'' long_message [tea_dict] default_persona None))
   \<and> build_prompt ''10:00 AM'' long_message [tea_dict] default_persona None =
       compress_prompt (full_prompt ''10:00 AM'' long_message [tea_dict] default_persona None)
   \<and> ''- likes tea''
       \<in> set (split_on CHR 0x0A []
                 (full_prompt ''10:00 AM'' long_message [tea_dict] default_persona None))
   \<and> ''- likes tea''
       \<notin> set (split_on CHR 0x0A []
                 (build_prompt ''10:00 AM'' long_message [tea_dict] default_persona None))
   \<and> ''- Time of day: 10:00 AM''
       \<in> set (split_on CHR 0x0A []
                 (full_prompt ''10:00 AM'' long_message [tea_dict] default_persona None))
   \<and> ''- Time of day: 10:00 AM''
       \<notin> set (split_on CHR 0x0A []
                 (build_prompt ''10:00 AM'' long_message [tea_dict] default_persona None))"
proof -
  let ?p = "full_prompt ''10:00 AM'' long_message [tea_dict] default_persona None"
  have conf: "d_confidence tea_dict = 9 / 10" by (simp add: tea_dict_def)
  have w: "3000 < length (py_split ?p)"
    using full_prompt_words[of "''10:00 AM''"] by simp
  have b: "build_prompt ''10:00 AM'' long_message [tea_dict] default_persona None = compress_prompt ?p"
    using w by (simp add: build_prompt_def Let_def)
  have hdr: "list_ex (str_in memory_header) (split_on CHR 0x0A [] ?p)"
    unfolding full_prompt_lines using head_facts by simp
  have l: "split_on CHR 0x0A [] (compress_prompt ?p) = compress_lines False (split_on CHR 0x0A [] ?p)"
    using hdr by (rule compress_prompt_lines)
  have tea_in: "''- likes tea'' \<in> set (split_on CHR 0x0A [] ?p)"
    unfolding full_prompt_lines using head_facts by simp
  have tod: "split_on CHR 0x0A [] (''- Time of day: '' @ ''10:00 AM'') = [''- Time of day: 10:00 AM'']"
    by code_simp
  have time_in: "''- Time of day: 10:00 AM'' \<in> set (split_on CHR 0x0A [] ?p)"
    unfolding full_prompt_lines tod by simp
  have tea_out: "''- likes tea'' \<notin> set (compress_lines False (split_on CHR 0x0A [] ?p))"
    by (rule dropped_after_header) (use bullet_facts head_facts in simp_all)
  have time_out: "''- Time of day: 10:00 AM'' \<notin> set (compress_lines False (split_on CHR 0x0A [] ?p))"
    by (rule dropped_after_header) (use bullet_facts head_facts in simp_all)
  from conf w b tea_in tea_out time_in time_out show ?thesis
    unfolding b l by blast
qed

end
